theory Spec2Isabelle
  imports Main "HOL-Library.Multiset" "HOL-Library.Word"
begin

section \<open>Common Go values\<close>

text \<open>
  A Go \<^verbatim>\<open>error\<close> value is either a leaf made by \<^verbatim>\<open>errors.New\<close> (or by a library) or a
  wrapper made by \<^verbatim>\<open>fmt.Errorf("...: %w", err)\<close>, which keeps the wrapped error
  reachable through \<^verbatim>\<open>errors.Unwrap\<close>. A function with the Go signature
  \<^verbatim>\<open>(T, error)\<close> is modelled as returning the pair \<open>(T, error option)\<close>, \<open>None\<close>
  being the \<^verbatim>\<open>nil\<close> error, so that the value returned beside an error can be stated.
\<close>

datatype error = New string | Errorf string error

fun Unwrap :: "error \<Rightarrow> error option" where
  "Unwrap (New m) = None"
| "Unwrap (Errorf m e) = Some e"

text \<open>\<^verbatim>\<open>errors.Is(err, target)\<close> for comparable errors: walk the chain of wrapped errors.\<close>

fun Is :: "error \<Rightarrow> error \<Rightarrow> bool" where
  "Is (New m) target = (New m = target)"
| "Is (Errorf m e) target = (Errorf m e = target \<or> Is e target)"

text \<open>A call either returns or panics.\<close>

datatype 'a outcome = Return 'a | Panic string

text \<open>
  A \<^verbatim>\<open>time.Time\<close> holds a wall-clock reading, here in nanoseconds since the Unix epoch,
  and, when it comes from \<^verbatim>\<open>time.Now()\<close>, a reading of the process's monotonic clock,
  an \<^verbatim>\<open>int64\<close> of nanoseconds. A \<^verbatim>\<open>time.Duration\<close> is a number of nanoseconds.
  \<^verbatim>\<open>Before\<close> compares the monotonic readings when both times have one and the wall
  clocks otherwise; \<^verbatim>\<open>Add\<close> moves both readings and drops the monotonic one when it
  leaves the \<^verbatim>\<open>int64\<close> range; \<^verbatim>\<open>Unix()\<close> is the number of whole seconds of the wall
  clock (rounded down). The wall clock itself is not bounded in the model.
\<close>

type_synonym Duration = int

record Time =
  wall :: int
  monotonic :: "int option"

definition Second :: Duration where "Second = 1000000000"
definition Minute :: Duration where "Minute = 60 * Second"

definition Before :: "Time \<Rightarrow> Time \<Rightarrow> bool" where
  "Before t u =
     (case (monotonic t, monotonic u) of
        (Some a, Some b) \<Rightarrow> a < b
      | _ \<Rightarrow> wall t < wall u)"

definition Add :: "Time \<Rightarrow> Duration \<Rightarrow> Time" where
  "Add t d =
     \<lparr>wall = wall t + d,
      monotonic =
        (case monotonic t of
           None \<Rightarrow> None
         | Some m \<Rightarrow> if - (2 ^ 63) \<le> m + d \<and> m + d < 2 ^ 63 then Some (m + d) else None)\<rparr>"

definition Unix :: "Time \<Rightarrow> int" where
  "Unix t = wall t div 1000000000"

text \<open>\<^verbatim>\<open>time.Unix(sec, 0)\<close>: a time with that wall clock and no monotonic reading.\<close>

definition time_Unix :: "int \<Rightarrow> Time" where
  "time_Unix sec = \<lparr>wall = sec * 1000000000, monotonic = None\<rparr>"

section \<open>The client (client.go)\<close>

text \<open>
  A \<^verbatim>\<open>*slog.Logger\<close> is modelled by how it was built; a pointer that may be
  \<^verbatim>\<open>nil\<close> is an \<open>option\<close>. Traces (\<^verbatim>\<open>*httptrace.ClientTrace\<close>), round trippers and the
  token provider stay abstract (type variables \<open>'t\<close>, \<open>'r\<close>, \<open>'g\<close>).
\<close>

datatype Writer = Discard | Writer nat
datatype Handler = NewTextHandler Writer | Handler nat
datatype slog_Logger = slog_New Handler

record 'r http_Client =
  Transport :: "'r option"
  Timeout :: Duration

record ('t, 'r, 'g) Client =
  Host :: string
  Development :: bool
  HTTPClient :: "'r http_Client"
  TokenProvider :: 'g
  Logger :: "slog_Logger option"
  Trace :: "'t option"

subsection \<open>Options\<close>

text \<open>
  \<^verbatim>\<open>type OptionOrder int\<close> with the constants \<^verbatim>\<open>Development\<close> = 1 (\<^verbatim>\<open>iota + 1\<close>) up to
  \<^verbatim>\<open>ClientTrace\<close> = 5.
\<close>

type_synonym OptionOrder = int

definition Development_order :: OptionOrder where "Development_order = 1"
definition Logger_order :: OptionOrder where "Logger_order = 2"
definition Transport_order :: OptionOrder where "Transport_order = 3"
definition ClientTimeout_order :: OptionOrder where "ClientTimeout_order = 4"
definition ClientTrace_order :: OptionOrder where "ClientTrace_order = 5"

text \<open>
  An option is the struct \<^verbatim>\<open>{f func(*Client); order OptionOrder}\<close>. The function gets
  a pointer (\<open>None\<close> is \<^verbatim>\<open>nil\<close>) and may change the client behind it; being a Go closure
  it may also change what it captured, the environment \<open>'w\<close> (the trace factory handed
  to \<^verbatim>\<open>WithClientTrace\<close> is such a caller-supplied function).
\<close>

record ('t, 'r, 'g, 'w) Option =
  opt_f :: "('t, 'r, 'g) Client option \<Rightarrow> 'w \<Rightarrow> ('t, 'r, 'g) Client option \<times> 'w"
  opt_order :: OptionOrder

definition WithDevelopment :: "('t, 'r, 'g, 'w) Option" where
  "WithDevelopment =
    \<lparr>opt_f = (\<lambda>c w. (case c of None \<Rightarrow> None | Some c \<Rightarrow> Some (c\<lparr>Development := True\<rparr>), w)),
     opt_order = Development_order\<rparr>"

definition WithLogger :: "slog_Logger option \<Rightarrow> ('t, 'r, 'g, 'w) Option" where
  "WithLogger logger =
    \<lparr>opt_f = (\<lambda>c w. (case c of None \<Rightarrow> None
                     | Some c \<Rightarrow> if logger \<noteq> None then Some (c\<lparr>Logger := logger\<rparr>) else Some c, w)),
     opt_order = Logger_order\<rparr>"

definition WithTransport :: "'r option \<Rightarrow> ('t, 'r, 'g, 'w) Option" where
  "WithTransport tr =
    \<lparr>opt_f = (\<lambda>c w. (case c of None \<Rightarrow> None
                     | Some c \<Rightarrow> if tr \<noteq> None
                                then Some (c\<lparr>HTTPClient := (HTTPClient c)\<lparr>Transport := tr\<rparr>\<rparr>)
                                else Some c, w)),
     opt_order = Transport_order\<rparr>"

definition WithClientTimeout :: "Duration \<Rightarrow> ('t, 'r, 'g, 'w) Option" where
  "WithClientTimeout timeout =
    \<lparr>opt_f = (\<lambda>c w. (case c of None \<Rightarrow> None
                     | Some c \<Rightarrow> Some (c\<lparr>HTTPClient := (HTTPClient c)\<lparr>Timeout := timeout\<rparr>\<rparr>), w)),
     opt_order = ClientTimeout_order\<rparr>"

definition WithClientTrace ::
  "(slog_Logger option \<Rightarrow> 'w \<Rightarrow> 't option \<times> 'w) \<Rightarrow> ('t, 'r, 'g, 'w) Option" where
  "WithClientTrace fac =
    \<lparr>opt_f = (\<lambda>c w. case c of None \<Rightarrow> (None, w)
                    | Some c \<Rightarrow> (let (tr, w') = fac (Logger c) w
                                in (if tr \<noteq> None then Some (c\<lparr>Trace := tr\<rparr>) else Some c, w'))),
     opt_order = ClientTrace_order\<rparr>"

text \<open>
  Calling \<^verbatim>\<open>opt.f(c)\<close> on the client \<open>c\<close> under construction: the callee gets the
  pointer by value, so afterwards \<open>c\<close> is still that client, with the fields the callee
  wrote.
\<close>

definition call_f ::
  "('t, 'r, 'g, 'w) Option \<Rightarrow> ('t, 'r, 'g) Client \<times> 'w \<Rightarrow> ('t, 'r, 'g) Client \<times> 'w" where
  "call_f opt cw =
    (case opt_f opt (Some (fst cw)) (snd cw) of
       (Some c', w') \<Rightarrow> (c', w')
     | (None, w') \<Rightarrow> (fst cw, w'))"

text \<open>The loop \<^verbatim>\<open>for _, opt := range opts { opt.f(c) }\<close>.\<close>

fun apply_opts ::
  "('t, 'r, 'g, 'w) Option list \<Rightarrow> ('t, 'r, 'g) Client \<times> 'w \<Rightarrow> ('t, 'r, 'g) Client \<times> 'w" where
  "apply_opts [] cw = cw"
| "apply_opts (opt # opts) cw = apply_opts opts (call_f opt cw)"

subsection \<open>Sorting\<close>

text \<open>
  \<^verbatim>\<open>sort.Slice\<close> belongs to the standard library and is a parameter of the model. What
  the library promises is that the slice ends up as a permutation of itself in which no
  element is less than an earlier one; it does not promise stability.
\<close>

definition sort_Slice_ok :: "(('a \<Rightarrow> 'a \<Rightarrow> bool) \<Rightarrow> 'a list \<Rightarrow> 'a list) \<Rightarrow> ('a \<Rightarrow> int) \<Rightarrow> bool" where
  "sort_Slice_ok sort_Slice key \<longleftrightarrow>
     (\<forall>xs. mset (sort_Slice (\<lambda>a b. key a < key b) xs) = mset xs \<and>
           sorted (map key (sort_Slice (\<lambda>a b. key a < key b) xs)))"

text \<open>
  For slices of at most 12 elements the library runs an insertion sort
  (\<^verbatim>\<open>for i := a + 1; i < b; i++ { for j := i; j > a && less(j, j-1); j-- { swap(j, j-1) } }\<close>):
  each element in turn moves towards the front past every element it is less than.
  \<open>sift\<close> works on the sorted prefix \<open>pre\<close>, kept in reverse.
\<close>

fun sift :: "('a \<Rightarrow> 'a \<Rightarrow> bool) \<Rightarrow> 'a \<Rightarrow> 'a list \<Rightarrow> 'a list" where
  "sift lt x [] = [x]"
| "sift lt x (y # ys) = (if lt x y then y # sift lt x ys else x # y # ys)"

fun insertion_loop :: "('a \<Rightarrow> 'a \<Rightarrow> bool) \<Rightarrow> 'a list \<Rightarrow> 'a list \<Rightarrow> 'a list" where
  "insertion_loop lt pre [] = rev pre"
| "insertion_loop lt pre (x # xs) = insertion_loop lt (sift lt x pre) xs"

definition insertionSort :: "('a \<Rightarrow> 'a \<Rightarrow> bool) \<Rightarrow> 'a list \<Rightarrow> 'a list" where
  "insertionSort lt xs = insertion_loop lt [] xs"

subsection \<open>NewClient\<close>

text \<open>
  The initializer is a \<^verbatim>\<open>func() (*http.Client, error)\<close>; the model takes what it
  returns, an error or a client. \<^verbatim>\<open>NewClient\<close> returns \<^verbatim>\<open>(*Client, error)\<close>.
\<close>

definition NewClient ::
  "((('t, 'r, 'g, 'w) Option \<Rightarrow> ('t, 'r, 'g, 'w) Option \<Rightarrow> bool) \<Rightarrow>
      ('t, 'r, 'g, 'w) Option list \<Rightarrow> ('t, 'r, 'g, 'w) Option list) \<Rightarrow>
   error + 'r http_Client \<Rightarrow> string \<Rightarrow> 'g \<Rightarrow> ('t, 'r, 'g, 'w) Option list \<Rightarrow> 'w \<Rightarrow>
   (('t, 'r, 'g) Client option \<times> error option) \<times> 'w" where
  "NewClient sort_Slice initializer host tp opts w =
    (case initializer of
       Inl err \<Rightarrow> ((None, Some err), w)
     | Inr cli \<Rightarrow>
        (let c = \<lparr>Host = host, Development = False, HTTPClient = cli, TokenProvider = tp,
                  Logger = Some (slog_New (NewTextHandler Discard)), Trace = None\<rparr>;
             opts' = sort_Slice (\<lambda>a b. opt_order a < opt_order b) opts;
             (c', w') = apply_opts opts' (c, w)
         in ((Some c', None), w')))"

subsection \<open>Notions used to state the option pipeline's properties\<close>

text \<open>The options a caller outside the package can build: the five constructors.\<close>

inductive public_option :: "('t, 'r, 'g, 'w) Option \<Rightarrow> bool" where
  "public_option WithDevelopment"
| "public_option (WithLogger logger)"
| "public_option (WithTransport tr)"
| "public_option (WithClientTimeout timeout)"
| "public_option (WithClientTrace fac)"

text \<open>
  The client \<^verbatim>\<open>NewClient\<close> builds before it applies any option.
\<close>

definition initial_Client :: "'r http_Client \<Rightarrow> string \<Rightarrow> 'g \<Rightarrow> ('t, 'r, 'g) Client" where
  "initial_Client cli host tp =
    \<lparr>Host = host, Development = False, HTTPClient = cli, TokenProvider = tp,
     Logger = Some (slog_New (NewTextHandler Discard)), Trace = None\<rparr>"

text \<open>
  The pipeline as the specification words it, for comparison with \<^verbatim>\<open>NewClient\<close>: sort by
  rank, apply in that order, then apply every dependent option once more. The dependent
  option is the request-trace one (\<^verbatim>\<open>ClientTrace // Depends on Logger being already set\<close>).
\<close>

definition dependent_option :: "('t, 'r, 'g, 'w) Option \<Rightarrow> bool" where
  "dependent_option opt \<longleftrightarrow> opt_order opt = ClientTrace_order"

definition NewClient_two_pass_spec ::
  "((('t, 'r, 'g, 'w) Option \<Rightarrow> ('t, 'r, 'g, 'w) Option \<Rightarrow> bool) \<Rightarrow>
      ('t, 'r, 'g, 'w) Option list \<Rightarrow> ('t, 'r, 'g, 'w) Option list) \<Rightarrow>
   error + 'r http_Client \<Rightarrow> string \<Rightarrow> 'g \<Rightarrow> ('t, 'r, 'g, 'w) Option list \<Rightarrow> 'w \<Rightarrow>
   (('t, 'r, 'g) Client option \<times> error option) \<times> 'w" where
  "NewClient_two_pass_spec sort_Slice initializer host tp opts w =
    (case initializer of
       Inl err \<Rightarrow> ((None, Some err), w)
     | Inr cli \<Rightarrow>
        (let opts' = sort_Slice (\<lambda>a b. opt_order a < opt_order b) opts;
             (c', w') = apply_opts (filter dependent_option opts')
                          (apply_opts opts' (initial_Client cli host tp, w))
         in ((Some c', None), w')))"

subsection \<open>Do\<close>

text \<open>
  An \<^verbatim>\<open>http.Request\<close>, as far as \<^verbatim>\<open>Client.Do\<close> touches it: the header map (made by
  \<^verbatim>\<open>http.NewRequest\<close>) and the trace bound to its context.
  \<^verbatim>\<open>Header.Set(key, value)\<close> replaces the values of the (canonical) key by the single
  value.
\<close>

record 't Request =
  Method :: string
  URL :: string
  Header :: "string \<rightharpoonup> string list"
  ctx_trace :: "'t option"

record Response =
  StatusCode :: int
  Body :: string

definition Header_Set :: "(string \<rightharpoonup> string list) \<Rightarrow> string \<Rightarrow> string \<Rightarrow> (string \<rightharpoonup> string list)" where
  "Header_Set h key v = h(key \<mapsto> [v])"

text \<open>
  What \<^verbatim>\<open>Do\<close> runs in: the clock read by \<^verbatim>\<open>time.Now()\<close>, the state behind the token
  provider, and the state of the network behind the HTTP client. The provider is an
  interface value: its \<^verbatim>\<open>GetToken\<close> method is the field \<open>TokenProvider\<close> of the client,
  a function on the provider's state. \<open>http_Do\<close> is \<^verbatim>\<open>(*http.Client).Do\<close> of the
  standard library.
\<close>

record ('p, 'n) World =
  clock :: Time
  provider :: 'p
  net :: 'n

type_synonym 'p GetToken_method = "'p \<Rightarrow> Time \<Rightarrow> (string \<times> error option) \<times> 'p"

definition Do ::
  "('r http_Client \<Rightarrow> 't Request \<Rightarrow> 'n \<Rightarrow> (Response option \<times> error option) \<times> 'n) \<Rightarrow>
   ('t, 'r, 'p GetToken_method) Client \<Rightarrow> 't Request \<Rightarrow> ('p, 'n) World \<Rightarrow>
   (Response option \<times> error option) \<times> ('p, 'n) World" where
  "Do http_Do c req w =
    (let req1 = (if Trace c \<noteq> None then req\<lparr>ctx_trace := Trace c\<rparr> else req);
         ((bearer, err), p') = TokenProvider c (provider w) (clock w)
     in case err of
          Some e \<Rightarrow> ((None, Some e), w\<lparr>provider := p'\<rparr>)
        | None \<Rightarrow>
            (let req2 = req1\<lparr>Header := Header_Set (Header req1) ''Authorization'' (''Bearer '' @ bearer)\<rparr>;
                 (res, n') = http_Do (HTTPClient c) req2 (net w)
             in (res, w\<lparr>provider := p', net := n'\<rparr>)))"

text \<open>
  The variant of the client with the process-wide transport has the same \<^verbatim>\<open>Do\<close>, with
  the scheme keyword in lower case (\<^verbatim>\<open>"bearer "+bearer\<close>).
\<close>

definition Do_shared ::
  "('r http_Client \<Rightarrow> 't Request \<Rightarrow> 'n \<Rightarrow> (Response option \<times> error option) \<times> 'n) \<Rightarrow>
   ('t, 'r, 'p GetToken_method) Client \<Rightarrow> 't Request \<Rightarrow> ('p, 'n) World \<Rightarrow>
   (Response option \<times> error option) \<times> ('p, 'n) World" where
  "Do_shared http_Do c req w =
    (let req1 = (if Trace c \<noteq> None then req\<lparr>ctx_trace := Trace c\<rparr> else req);
         ((bearer, err), p') = TokenProvider c (provider w) (clock w)
     in case err of
          Some e \<Rightarrow> ((None, Some e), w\<lparr>provider := p'\<rparr>)
        | None \<Rightarrow>
            (let req2 = req1\<lparr>Header := Header_Set (Header req1) ''Authorization'' (''bearer '' @ bearer)\<rparr>;
                 (res, n') = http_Do (HTTPClient c) req2 (net w)
             in (res, w\<lparr>provider := p', net := n'\<rparr>)))"

section \<open>Transport construction (client.go, config.go)\<close>

text \<open>
  \<^verbatim>\<open>tls.Config\<close> and \<^verbatim>\<open>http.Transport\<close> with the fields the repository sets; a
  \<^verbatim>\<open>tls.Config{...}\<close> literal leaves every other field at its zero value. Versions are
  \<^verbatim>\<open>uint16\<close>; \<^verbatim>\<open>tls.VersionTLS13\<close> is \<^verbatim>\<open>0x0304\<close>. Values are immutable in the model, so
  \<^verbatim>\<open>Clone()\<close> is the identity.
\<close>

record tls_Config =
  MinVersion :: "16 word"
  MaxVersion :: "16 word"
  InsecureSkipVerify :: bool
  NextProtos :: "string list"

definition VersionTLS12 :: "16 word" where "VersionTLS12 = 0x0303"
definition VersionTLS13 :: "16 word" where "VersionTLS13 = 0x0304"

definition tls_Config_zero :: tls_Config where
  "tls_Config_zero = \<lparr>MinVersion = 0, MaxVersion = 0, InsecureSkipVerify = False, NextProtos = []\<rparr>"

text \<open>
  The standard library reads \<^verbatim>\<open>MinVersion = 0\<close> as "no minimum configured" and falls back
  to its own default, which is below TLS 1.3 (TLS 1.2 for clients in current releases).
  The default is a parameter.
\<close>

definition minimum_version :: "16 word \<Rightarrow> tls_Config \<Rightarrow> 16 word" where
  "minimum_version library_default cfg =
     (if MinVersion cfg = 0 then library_default else MinVersion cfg)"

record Dialer =
  Dialer_Timeout :: Duration
  Dialer_KeepAlive :: Duration

record http_Transport =
  TLSClientConfig :: "tls_Config option"
  MaxIdleConnsPerHost :: int
  MaxConnsPerHost :: int
  IdleConnTimeout :: Duration
  ForceAttemptHTTP2 :: bool
  DialContext :: "Dialer option"

record http2_Transport =
  t1 :: http_Transport
  h2_TLSClientConfig :: "tls_Config option"
  ReadIdleTimeout :: Duration
  DialTLSContext :: "Dialer option"

text \<open>
  An \<^verbatim>\<open>http.RoundTripper\<close> is an interface: the clients of this repository hold a
  \<^verbatim>\<open>*http.Transport\<close> or a \<^verbatim>\<open>*http2.Transport\<close>, callers may pass anything else.
\<close>

datatype RoundTripper =
  HTTP1 http_Transport
| HTTP2 http2_Transport
| OtherRoundTripper nat

text \<open>
  \<^verbatim>\<open>DefaultHTTPClientInitializer\<close>: clone \<^verbatim>\<open>http.DefaultTransport\<close> (the parameter
  \<open>DefaultTransport\<close>), then set four fields. The result is what the returned function
  returns when called.
\<close>

definition DefaultHTTPClientInitializer :: "http_Transport \<Rightarrow> error + RoundTripper http_Client" where
  "DefaultHTTPClientInitializer DefaultTransport =
    (let tr = DefaultTransport;
         tr = tr\<lparr>TLSClientConfig := Some (tls_Config_zero\<lparr>MaxVersion := VersionTLS13\<rparr>)\<rparr>;
         tr = tr\<lparr>MaxIdleConnsPerHost := 100\<rparr>;
         tr = tr\<lparr>MaxConnsPerHost := 100\<rparr>;
         tr = tr\<lparr>ForceAttemptHTTP2 := True\<rparr>
     in Inr \<lparr>Transport = Some (HTTP1 tr), Timeout = 0\<rparr>)"

record HTTPConfig =
  HTTPTimeout :: Duration
  cfg_ReadIdleTimeout :: Duration
  KeepAlive :: Duration
  DialTimeout :: Duration
  cfg_MaxConnsPerHost :: int
  cfg_IdleConnTimeout :: Duration
  cfg_MaxIdleConnsPerHost :: int
  TLSConfig :: "tls_Config option"

definition defaultConfig :: HTTPConfig where
  "defaultConfig =
    \<lparr>HTTPTimeout = 60 * Second,
     cfg_ReadIdleTimeout = 15 * Second,
     KeepAlive = 30 * Second,
     DialTimeout = 30 * Second,
     cfg_MaxConnsPerHost = 30,
     cfg_IdleConnTimeout = 90 * Second,
     cfg_MaxIdleConnsPerHost = 30,
     TLSConfig = Some (tls_Config_zero\<lparr>MinVersion := VersionTLS13\<rparr>)\<rparr>"

definition DefaultConfig :: HTTPConfig where
  "DefaultConfig =
    (let configCopy = defaultConfig
     in if TLSConfig defaultConfig \<noteq> None
        then configCopy\<lparr>TLSConfig := TLSConfig defaultConfig\<rparr>
        else configCopy)"

text \<open>
  \<^verbatim>\<open>ConfigureHTTPClientInitializer\<close>. \<^verbatim>\<open>http2.ConfigureTransports\<close> belongs to
  \<^verbatim>\<open>golang.org/x/net/http2\<close> and is a parameter: given the HTTP/1.1 transport it fails, or
  returns the HTTP/2 transport wrapped around it.
\<close>

definition ConfigureHTTPClientInitializer ::
  "(http_Transport \<Rightarrow> error + http2_Transport) \<Rightarrow> http_Transport \<Rightarrow> HTTPConfig \<Rightarrow>
   error + RoundTripper http_Client" where
  "ConfigureHTTPClientInitializer http2_ConfigureTransports DefaultTransport cfg =
    (let tr = DefaultTransport;
         tr = (if TLSConfig cfg \<noteq> None then tr\<lparr>TLSClientConfig := TLSConfig cfg\<rparr> else tr);
         tr = tr\<lparr>MaxConnsPerHost := cfg_MaxConnsPerHost cfg\<rparr>;
         tr = tr\<lparr>MaxIdleConnsPerHost := cfg_MaxIdleConnsPerHost cfg\<rparr>;
         tr = tr\<lparr>IdleConnTimeout := cfg_IdleConnTimeout cfg\<rparr>;
         tr = tr\<lparr>DialContext :=
                  Some \<lparr>Dialer_Timeout = DialTimeout cfg, Dialer_KeepAlive = KeepAlive cfg\<rparr>\<rparr>
     in case http2_ConfigureTransports tr of
          Inl err \<Rightarrow> Inl err
        | Inr tr2 \<Rightarrow>
            Inr \<lparr>Transport = Some (HTTP2 (tr2\<lparr>ReadIdleTimeout := cfg_ReadIdleTimeout cfg\<rparr>)),
                 Timeout = HTTPTimeout cfg\<rparr>)"

text \<open>
  The \<^verbatim>\<open>TLSClientConfig\<close> field of the transport the client holds, if that transport is
  one of the two kinds that have the field.
\<close>

definition client_tls :: "RoundTripper http_Client \<Rightarrow> tls_Config option" where
  "client_tls cli =
    (case Transport cli of
       Some (HTTP1 tr) \<Rightarrow> TLSClientConfig tr
     | Some (HTTP2 tr2) \<Rightarrow> h2_TLSClientConfig tr2
     | _ \<Rightarrow> None)"

section \<open>Tokens (package token)\<close>

subsection \<open>Library encodings\<close>

text \<open>
  \<^verbatim>\<open>base64.RawURLEncoding.EncodeToString\<close>: the URL alphabet, no padding. Three bytes
  give four 6-bit values; one or two trailing bytes give two or three.
\<close>

definition encodeURL :: string where
  "encodeURL = ''ABCDEFGHIJKLMNOPQRSTUVWXYZabcdefghijklmnopqrstuvwxyz0123456789-_''"

fun sextets :: "nat list \<Rightarrow> nat list" where
  "sextets (a # b # c # rest) =
     [a div 4, (a mod 4) * 16 + b div 16, (b mod 16) * 4 + c div 64, c mod 64] @ sextets rest"
| "sextets [a, b] = [a div 4, (a mod 4) * 16 + b div 16, (b mod 16) * 4]"
| "sextets [a] = [a div 4, (a mod 4) * 16]"
| "sextets [] = []"

definition EncodeToString :: "string \<Rightarrow> string" where
  "EncodeToString src = map (\<lambda>v. encodeURL ! v) (sextets (map of_char src))"

text \<open>
  Decimal digits of an integer, as \<^verbatim>\<open>strconv\<close> and \<^verbatim>\<open>encoding/json\<close> print an
  \<^verbatim>\<open>int64\<close>.
\<close>

definition digit_char :: "nat \<Rightarrow> char" where
  "digit_char d = char_of (48 + d)"

function digits :: "nat \<Rightarrow> string" where
  "digits n = (if n < 10 then [digit_char n] else digits (n div 10) @ [digit_char (n mod 10)])"
  by pat_completeness auto
termination
  by (relation "measure (\<lambda>n. n)") auto

definition Itoa :: "int \<Rightarrow> string" where
  "Itoa i = (if i < 0 then ''-'' @ digits (nat (- i)) else digits (nat i))"

subsection \<open>Header, payload and their JSON (jwt.go)\<close>

record Header =
  Alg :: string
  Kid :: string

record Payload =
  Issuer :: string
  IssuedAt :: int

text \<open>
  \<^verbatim>\<open>json.Marshal\<close> of the two structs, following their field tags: \<^verbatim>\<open>alg\<close> and \<^verbatim>\<open>kid\<close>
  are always written, \<^verbatim>\<open>iss\<close> and \<^verbatim>\<open>iat\<close> are \<^verbatim>\<open>omitempty\<close>. How the library quotes
  and escapes a string is the parameter \<open>quote\<close>. Marshalling these structs cannot fail.
\<close>

definition json_Header :: "(string \<Rightarrow> string) \<Rightarrow> Header \<Rightarrow> string \<times> error option" where
  \<open>json_Header quote h =
     (''{"alg":'' @ quote (Alg h) @ '',"kid":'' @ quote (Kid h) @ ''}'', None)\<close>

definition json_Payload :: "(string \<Rightarrow> string) \<Rightarrow> Payload \<Rightarrow> string \<times> error option" where
  \<open>json_Payload quote p =
     (''{'' @ (if Issuer p \<noteq> [] then ''"iss":'' @ quote (Issuer p) else [])
           @ (if Issuer p \<noteq> [] \<and> IssuedAt p \<noteq> 0 then '','' else [])
           @ (if IssuedAt p \<noteq> 0 then ''"iat":'' @ Itoa (IssuedAt p) else [])
           @ ''}'', None)\<close>

text \<open>
  \<^verbatim>\<open>JWTClaims\<close> holds a header and a payload of any type (\<^verbatim>\<open>JWTToken\<close>, used by the
  token provider, holds a \<^verbatim>\<open>Header\<close> and a \<^verbatim>\<open>Payload\<close>; its \<^verbatim>\<open>SignedString\<close> has the same
  body). \<^verbatim>\<open>json.Marshal\<close> at the two types and the signer's \<^verbatim>\<open>Sign\<close> method
  (\<open>signer_Sign\<close>) are parameters; the signer works on a state \<open>'s\<close> (its own fields and the random source).
\<close>

record ('h, 'p) JWTClaims =
  jwt_Header :: 'h
  jwt_Payload :: 'p

type_synonym 's Signer = "'s \<Rightarrow> string \<Rightarrow> (string \<times> error option) \<times> 's"

definition SignedString ::
  "('h \<Rightarrow> string \<times> error option) \<Rightarrow> ('p \<Rightarrow> string \<times> error option) \<Rightarrow> 's Signer \<Rightarrow>
   ('h, 'p) JWTClaims \<Rightarrow> 's \<Rightarrow> (string \<times> error option) \<times> 's" where
  "SignedString json_Marshal_h json_Marshal_p signer_Sign jwt s =
    (case json_Marshal_h (jwt_Header jwt) of
       (header, Some err) \<Rightarrow> (([], Some (Errorf ''failed to marshal JWT header to JSON'' err)), s)
     | (header, None) \<Rightarrow>
        (case json_Marshal_p (jwt_Payload jwt) of
           (payload, Some err) \<Rightarrow> (([], Some (Errorf ''failed to marshal JWT payload to JSON'' err)), s)
         | (payload, None) \<Rightarrow>
            (let str = EncodeToString header @ ''.'' @ EncodeToString payload;
                 ((sign, err), s') = signer_Sign s str
             in case err of
                  Some e \<Rightarrow> (([], Some (Errorf ''failed to sign JWT data'' e)), s')
                | None \<Rightarrow> ((str @ ''.'' @ EncodeToString sign, None), s'))))"

subsection \<open>The ECDSA signer (signer.go)\<close>

text \<open>
  An \<^verbatim>\<open>*ecdsa.PrivateKey\<close> as far as \<^verbatim>\<open>Sign\<close> looks at it: the bit size of its curve
  and the secret. \<^verbatim>\<open>crypto.Hash\<close> is an unsigned integer, \<^verbatim>\<open>crypto.SHA256\<close> is 5.
\<close>

record ecdsa_PrivateKey =
  Curve_BitSize :: int
  D :: nat

type_synonym crypto_Hash = nat

definition SHA256 :: crypto_Hash where "SHA256 = 5"

record SignerECDSA =
  PrivateKey :: "ecdsa_PrivateKey option"
  Hash :: crypto_Hash

text \<open>
  \<^verbatim>\<open>(*big.Int).FillBytes(buf)\<close> writes the absolute value big-endian into the whole of
  \<open>buf\<close>, zero-extended, and panics when the value does not fit (\<open>None\<close>).
\<close>

fun big_endian :: "nat \<Rightarrow> nat \<Rightarrow> string" where
  "big_endian 0 x = []"
| "big_endian (Suc n) x = big_endian n (x div 256) @ [char_of (x mod 256)]"

definition FillBytes :: "int \<Rightarrow> nat \<Rightarrow> string option" where
  "FillBytes x n = (if nat \<bar>x\<bar> < 256 ^ n then Some (big_endian n (nat \<bar>x\<bar>)) else None)"

text \<open>
  \<^verbatim>\<open>SignerECDSA.Sign\<close>. Parameters from the standard library: \<open>Available\<close> is
  \<^verbatim>\<open>crypto.Hash.Available\<close>, \<open>hash_Sum h data\<close> is the digest \<^verbatim>\<open>h.New()\<close> computes of
  \<open>data\<close>, and \<open>ecdsa_Sign\<close> is \<^verbatim>\<open>ecdsa.Sign(rand.Reader, key, digest)\<close>, which draws on
  the random source \<open>'e\<close> and returns the two components \<open>r\<close>, \<open>s\<close> or an error. The
  method has a pointer receiver: it may change the signer (it stores the fallback hash).
  The returned slice may be \<^verbatim>\<open>nil\<close> (\<open>None\<close>).
\<close>

definition Sign ::
  "(crypto_Hash \<Rightarrow> bool) \<Rightarrow> (crypto_Hash \<Rightarrow> string \<Rightarrow> string) \<Rightarrow>
   ('e \<Rightarrow> ecdsa_PrivateKey \<Rightarrow> string \<Rightarrow> ((int \<times> int) \<times> error option) \<times> 'e) \<Rightarrow>
   SignerECDSA \<times> 'e \<Rightarrow> string \<Rightarrow>
   ((string option \<times> error option) \<times> SignerECDSA \<times> 'e) outcome" where
  "Sign Available hash_Sum ecdsa_Sign st data =
    (let (se, rand) = st in
     case PrivateKey se of
       None \<Rightarrow> Return ((None, Some (New ''missing private key'')), se, rand)
     | Some key \<Rightarrow>
        (let se = (if \<not> Available (Hash se) then se\<lparr>Hash := SHA256\<rparr> else se);
             curveBits = Curve_BitSize key
         in if curveBits \<noteq> 256
            then Return ((None, Some (New (''unsupported curve: expected P-256, got ''
                                            @ Itoa curveBits @ '' bits''))), se, rand)
            else
              (let digest = hash_Sum (Hash se) data;
                   (((r, s), err), rand') = ecdsa_Sign rand key digest
               in case err of
                    Some e \<Rightarrow> Return ((None, Some (Errorf ''ecdsa sign failed'' e)), se, rand')
                  | None \<Rightarrow>
                     (let keyBytes = nat ((curveBits + 7) div 8)
                      in case (FillBytes r keyBytes, FillBytes s keyBytes) of
                           (Some rb, Some sb) \<Rightarrow> Return ((Some (rb @ sb), None), se, rand')
                         | _ \<Rightarrow> Panic ''math/big: buffer too small to fit value''))))"

subsection \<open>The token provider\<close>

text \<open>
  The provider's state. Its logger is a \<^verbatim>\<open>*slog.Logger\<close>: \<^verbatim>\<open>nil\<close> (\<open>None\<close>), or a
  logger, modelled by the records it has been handed (message and \<^verbatim>\<open>expires_at\<close>). The
  mutex has no counterpart in a model of one call at a time.
\<close>

record 's TokenProvider =
  logger :: "(string \<times> Time) list option"
  signer :: 's
  keyID :: string
  teamID :: string
  tokenTTL :: Duration
  currentToken :: string
  expiresAt :: Time

definition TokenTTL :: Duration where "TokenTTL = 30 * Minute"

text \<open>
  \<^verbatim>\<open>type Option func(*TokenProvider)\<close>; the one option the package exports stores the
  logger it is given, \<^verbatim>\<open>nil\<close> included.
\<close>

type_synonym 's Option_token = "'s TokenProvider \<Rightarrow> 's TokenProvider"

definition WithLogger_token :: "(string \<times> Time) list option \<Rightarrow> 's Option_token" where
  "WithLogger_token l = (\<lambda>tp. tp\<lparr>logger := l\<rparr>)"

fun apply_token_opts :: "'s Option_token list \<Rightarrow> 's TokenProvider \<Rightarrow> 's TokenProvider" where
  "apply_token_opts [] tp = tp"
| "apply_token_opts (opt # opts) tp = apply_token_opts opts (opt tp)"

text \<open>
  \<^verbatim>\<open>NewProvider\<close>. The default logger discards what it is handed. The fields not named
  in the struct literal are zero: the empty token, and the zero \<^verbatim>\<open>time.Time\<close> (1 January
  of year 1, which is 62135596800 seconds before the Unix epoch, without a monotonic
  reading).
\<close>

definition zero_Time :: Time where
  "zero_Time = \<lparr>wall = - 62135596800 * Second, monotonic = None\<rparr>"

definition NewProvider ::
  "string \<Rightarrow> string \<Rightarrow> ecdsa_PrivateKey option \<Rightarrow> SignerECDSA Option_token list \<Rightarrow>
   SignerECDSA TokenProvider" where
  "NewProvider keyID' teamId secret opts =
    apply_token_opts opts
      \<lparr>logger = Some [],
       signer = \<lparr>PrivateKey = secret, Hash = SHA256\<rparr>,
       keyID = keyID',
       teamID = teamId,
       tokenTTL = TokenTTL,
       currentToken = [],
       expiresAt = zero_Time\<rparr>"

text \<open>
  \<^verbatim>\<open>GetToken\<close>. The signer is an interface value; its \<^verbatim>\<open>Sign\<close> method is the parameter
  \<open>signer_Sign\<close>, working on the signer's fields and on the environment \<open>'e\<close> it draws on.
  The validity check is made twice in the source, before and after taking the write lock.
  The call returns or panics; either way it leaves a provider state behind (the deferred
  unlock runs). \<^verbatim>\<open>p.logger.Info\<close> on a nil logger is a nil dereference; it comes after the
  token and its expiry are stored.
\<close>

definition GetToken ::
  "(string \<Rightarrow> string) \<Rightarrow> ('s \<times> 'e) Signer \<Rightarrow> 's TokenProvider \<times> 'e \<Rightarrow> Time \<Rightarrow>
   (string \<times> error option) outcome \<times> 's TokenProvider \<times> 'e" where
  "GetToken quote signer_Sign st now =
    (let (p, env) = st in
     if currentToken p \<noteq> [] \<and> Before now (expiresAt p) then (Return (currentToken p, None), p, env)
     else if currentToken p \<noteq> [] \<and> Before now (expiresAt p) then (Return (currentToken p, None), p, env)
     else
       (let jwtToken = \<lparr>jwt_Header = \<lparr>Alg = ''ES256'', Kid = keyID p\<rparr>,
                        jwt_Payload = \<lparr>Issuer = teamID p, IssuedAt = Unix now\<rparr>\<rparr>;
            ((newToken, err), (s', env')) =
               SignedString (json_Header quote) (json_Payload quote) signer_Sign jwtToken (signer p, env)
        in case err of
             Some e \<Rightarrow> (Return ([], Some (Errorf ''failed to sign JWT token'' e)), p\<lparr>signer := s'\<rparr>, env')
           | None \<Rightarrow>
              (let p = p\<lparr>signer := s', currentToken := newToken\<rparr>;
                   p = p\<lparr>expiresAt := Add now (tokenTTL p)\<rparr>
               in case logger p of
                    None \<Rightarrow> (Panic ''invalid memory address or nil pointer dereference'', p, env')
                  | Some records \<Rightarrow>
                      (let p = p\<lparr>logger := Some (records @ [(''Token generated successfully'', expiresAt p)])\<rparr>
                       in (Return (currentToken p, None), p, env')))))"

subsection \<open>Decoders, to state that the encodings lose nothing\<close>

text \<open>
  \<^verbatim>\<open>base64.RawURLEncoding.DecodeString\<close> on well-formed input: the position of each
  character in the alphabet, and the bytes rebuilt from the 6-bit values.
\<close>

definition url_index :: "char \<Rightarrow> nat" where
  "url_index c = length (takeWhile (\<lambda>x. x \<noteq> c) encodeURL)"

fun unsextets :: "nat list \<Rightarrow> nat list" where
  "unsextets (p # q # r # s # rest) =
     [p * 4 + q div 16, (q mod 16) * 16 + r div 4, (r mod 4) * 64 + s] @ unsextets rest"
| "unsextets [p, q, r] = [p * 4 + q div 16, (q mod 16) * 16 + r div 4]"
| "unsextets [p, q] = [p * 4 + q div 16]"
| "unsextets [p] = []"
| "unsextets [] = []"

definition DecodeString :: "string \<Rightarrow> string" where
  "DecodeString s = map char_of (unsextets (map url_index s))"


text \<open>\<^verbatim>\<open>(*big.Int).SetBytes\<close>: the number a big-endian byte string stands for.\<close>

definition SetBytes :: "string \<Rightarrow> nat" where
  "SetBytes bs = foldl (\<lambda>a c. 256 * a + of_char c) 0 bs"

subsection \<open>Notions used to state the token provider's properties\<close>

text \<open>
  The first two segments of the token \<^verbatim>\<open>GetToken\<close> mints at a given second for a given
  key and issuer: the encoded header, a dot, the encoded payload.
\<close>

definition signing_input :: "(string \<Rightarrow> string) \<Rightarrow> string \<Rightarrow> string \<Rightarrow> int \<Rightarrow> string" where
  "signing_input quote kid iss iat =
     EncodeToString (fst (json_Header quote \<lparr>Alg = ''ES256'', Kid = kid\<rparr>)) @ ''.'' @
     EncodeToString (fst (json_Payload quote \<lparr>Issuer = iss, IssuedAt = iat\<rparr>))"

text \<open>
  The cache is valid at \<open>now\<close>: the test \<^verbatim>\<open>GetToken\<close> makes.
\<close>

definition cache_valid :: "'s TokenProvider \<Rightarrow> Time \<Rightarrow> bool" where
  "cache_valid p now \<longleftrightarrow> currentToken p \<noteq> [] \<and> Before now (expiresAt p)"


definition failing_signer :: "error \<Rightarrow> ('s \<times> nat) Signer" where
  "failing_signer e = (\<lambda>st d. (([], Some e), (fst st, Suc (snd st))))"

text \<open>
  The states a provider can be in: built by \<^verbatim>\<open>NewProvider\<close> with exported options
  (whatever logger they store), then any number of \<^verbatim>\<open>GetToken\<close> calls at any times,
  returning or not.
\<close>

inductive provider_reachable ::
  "(string \<Rightarrow> string) \<Rightarrow> (SignerECDSA \<times> 'e) Signer \<Rightarrow> SignerECDSA TokenProvider \<Rightarrow> bool"
  for quote :: "string \<Rightarrow> string" and signer_Sign :: "(SignerECDSA \<times> 'e) Signer" where
  new: "\<forall>opt\<in>set opts. \<exists>l. opt = WithLogger_token l \<Longrightarrow>
        provider_reachable quote signer_Sign (NewProvider kid iss secret opts)"
| call: "provider_reachable quote signer_Sign p \<Longrightarrow>
         GetToken quote signer_Sign (p, env) now = (res, p', env') \<Longrightarrow>
         provider_reachable quote signer_Sign p'"

section \<open>The client with a process-wide transport\<close>

text \<open>
  A second version of the client package keeps one transport for the whole process,
  built once from a global configuration. Its options are functions
  \<^verbatim>\<open>func(*Client) bool\<close>: the result says whether the option wants to be applied again
  after all others. The client has the same fields as above (logger and trace
  unexported, the \<^verbatim>\<open>http.Client\<close> held by value).
\<close>

record ClientConfig =
  cc_HTTPTimeout :: Duration
  cc_ReadIdleTimeout :: Duration
  cc_KeepAlive :: Duration
  cc_DialTimeout :: Duration
  cc_MaxIdleConnsPerHost :: int
  cc_TLSConfig :: "tls_Config option"

definition defaultConfig_shared :: ClientConfig where
  "defaultConfig_shared =
    \<lparr>cc_HTTPTimeout = 60 * Second,
     cc_ReadIdleTimeout = 15 * Second,
     cc_KeepAlive = 15 * Second,
     cc_DialTimeout = 20 * Second,
     cc_MaxIdleConnsPerHost = 100,
     cc_TLSConfig = Some (tls_Config_zero\<lparr>MinVersion := VersionTLS13\<rparr>)\<rparr>"

text \<open>
  The package-level variables \<^verbatim>\<open>config\<close>, \<^verbatim>\<open>sharedTransport\<close> and \<^verbatim>\<open>configOnce\<close>
  (\<open>True\<close> once the \<^verbatim>\<open>sync.Once\<close> has run).
\<close>

record Globals =
  config :: "ClientConfig option"
  sharedTransport :: "http_Transport option"
  configOnce :: bool

text \<open>
  \<^verbatim>\<open>newTransport\<close> reads the global configuration, here its argument. The HTTP/1.1
  transport it returns is the one \<^verbatim>\<open>http2.ConfigureTransports\<close> has worked on, which the
  HTTP/2 transport wraps.
\<close>

definition newTransport ::
  "(http_Transport \<Rightarrow> error + http2_Transport) \<Rightarrow> http_Transport \<Rightarrow> ClientConfig \<Rightarrow>
   error + http_Transport \<times> http2_Transport" where
  "newTransport http2_ConfigureTransports DefaultTransport cfg =
    (let tr = DefaultTransport;
         tr = tr\<lparr>MaxIdleConnsPerHost := cc_MaxIdleConnsPerHost cfg\<rparr>;
         tr = tr\<lparr>TLSClientConfig := cc_TLSConfig cfg\<rparr>
     in case http2_ConfigureTransports tr of
          Inl err \<Rightarrow> Inl err
        | Inr tr2 \<Rightarrow>
            (let tr2 = tr2\<lparr>ReadIdleTimeout := cc_ReadIdleTimeout cfg\<rparr>;
                 tr2 = tr2\<lparr>DialTLSContext :=
                          Some \<lparr>Dialer_Timeout = cc_DialTimeout cfg,
                                Dialer_KeepAlive = cc_KeepAlive cfg\<rparr>\<rparr>
             in Inr (t1 tr2, tr2)))"

definition SetConfig ::
  "(http_Transport \<Rightarrow> error + http2_Transport) \<Rightarrow> http_Transport \<Rightarrow> ClientConfig \<Rightarrow>
   Globals \<Rightarrow> error option \<times> Globals" where
  "SetConfig http2_ConfigureTransports DefaultTransport cfg g =
    (if configOnce g then (None, g)
     else
       (let g = g\<lparr>configOnce := True\<rparr>;
            g = g\<lparr>config := Some cfg\<rparr>
        in case newTransport http2_ConfigureTransports DefaultTransport cfg of
             Inl err \<Rightarrow> (Some err, g)
           | Inr (tr, tr2) \<Rightarrow> (None, g\<lparr>sharedTransport := Some tr\<rparr>)))"

type_synonym ('t, 'g, 'w) Option_shared =
  "('t, http_Transport, 'g) Client option \<Rightarrow> 'w \<Rightarrow> (('t, http_Transport, 'g) Client option \<times> bool) \<times> 'w"

definition WithDevelopment_shared :: "('t, 'g, 'w) Option_shared" where
  "WithDevelopment_shared =
    (\<lambda>c w. ((case c of None \<Rightarrow> None | Some c \<Rightarrow> Some (c\<lparr>Development := True\<rparr>), False), w))"

definition WithLogger_shared :: "slog_Logger option \<Rightarrow> ('t, 'g, 'w) Option_shared" where
  "WithLogger_shared lg =
    (\<lambda>c w. ((case c of None \<Rightarrow> None
              | Some c \<Rightarrow> if lg \<noteq> None then Some (c\<lparr>Logger := lg\<rparr>) else Some c, False), w))"

definition WithTransport_shared :: "http_Transport option \<Rightarrow> ('t, 'g, 'w) Option_shared" where
  "WithTransport_shared tr =
    (\<lambda>c w. ((case c of None \<Rightarrow> None
              | Some c \<Rightarrow> if tr \<noteq> None
                         then Some (c\<lparr>HTTPClient := (HTTPClient c)\<lparr>Transport := tr\<rparr>\<rparr>)
                         else Some c, False), w))"

definition WithClientTrace_shared ::
  "(slog_Logger option \<Rightarrow> 'w \<Rightarrow> 't option \<times> 'w) \<Rightarrow> ('t, 'g, 'w) Option_shared" where
  "WithClientTrace_shared fac =
    (\<lambda>c w. case c of None \<Rightarrow> ((None, True), w)
            | Some c \<Rightarrow> (let (tr, w') = fac (Logger c) w
                        in ((if tr \<noteq> None then Some (c\<lparr>Trace := tr\<rparr>) else Some c, True), w')))"

text \<open>Calling \<^verbatim>\<open>opt(c)\<close> on the client under construction, the result dropped.\<close>

definition call_shared ::
  "('t, 'g, 'w) Option_shared \<Rightarrow> ('t, http_Transport, 'g) Client \<times> 'w \<Rightarrow>
   ('t, http_Transport, 'g) Client \<times> 'w" where
  "call_shared opt cw =
    (case opt (Some (fst cw)) (snd cw) of
       ((Some c', again), w') \<Rightarrow> (c', w')
     | ((None, again), w') \<Rightarrow> (fst cw, w'))"

text \<open>
  The loop \<^verbatim>\<open>for _, opt := range opts { if opt(nil) { last = opt }; opt(c) }\<close>, on the
  client, the environment and \<^verbatim>\<open>last\<close> (\<open>last'\<close>).
\<close>

fun options_loop ::
  "('t, 'g, 'w) Option_shared list \<Rightarrow>
   (('t, http_Transport, 'g) Client \<times> 'w) \<times> ('t, 'g, 'w) Option_shared option \<Rightarrow>
   (('t, http_Transport, 'g) Client \<times> 'w) \<times> ('t, 'g, 'w) Option_shared option" where
  "options_loop [] st = st"
| "options_loop (opt # opts) (cw, last') =
    (let (probe, w1) = opt None (snd cw);
         last' = (if snd probe then Some opt else last');
         cw = call_shared opt (fst cw, w1)
     in options_loop opts (cw, last'))"

text \<open>
  \<^verbatim>\<open>NewClient\<close> of this version. Reading \<^verbatim>\<open>config.HTTPTimeout\<close> with \<^verbatim>\<open>config\<close> still
  nil is a nil dereference.
\<close>

definition NewClient_shared ::
  "(http_Transport \<Rightarrow> error + http2_Transport) \<Rightarrow> http_Transport \<Rightarrow>
   string \<Rightarrow> 'g \<Rightarrow> ('t, 'g, 'w) Option_shared list \<Rightarrow> Globals \<times> 'w \<Rightarrow>
   ((('t, http_Transport, 'g) Client option \<times> error option) \<times> Globals \<times> 'w) outcome" where
  "NewClient_shared http2_ConfigureTransports DefaultTransport host tp opts gw =
    (let (g, w) = gw;
         (err, g) = (if sharedTransport g = None
                     then SetConfig http2_ConfigureTransports DefaultTransport defaultConfig_shared g
                     else (None, g))
     in if err \<noteq> None then Return ((None, err), g, w)
        else case config g of
               None \<Rightarrow> Panic ''invalid memory address or nil pointer dereference''
             | Some cfg \<Rightarrow>
                (let c = \<lparr>Host = host, Development = False,
                          HTTPClient = \<lparr>Transport = sharedTransport g, Timeout = cc_HTTPTimeout cfg\<rparr>,
                          TokenProvider = tp,
                          Logger = Some (slog_New (NewTextHandler Discard)), Trace = None\<rparr>;
                     (cw, last') = options_loop opts ((c, w), None);
                     cw = (case last' of None \<Rightarrow> cw | Some opt \<Rightarrow> call_shared opt cw)
                 in Return ((Some (fst cw), None), g, snd cw)))"

section \<open>Client.Do\<close>

text \<open>
  Claim C8. \<^verbatim>\<open>Client.Do\<close> first asks the token provider for a token at the current time.
  If that returns an error, \<^verbatim>\<open>Do\<close> returns this error with a nil response and the
  network is left as it was: the request is not handed to the HTTP client. If it returns
  a token, the request's Authorization header is set to the scheme keyword, a space and
  the token (\<^verbatim>\<open>Bearer\<close> in client.go, \<^verbatim>\<open>bearer\<close> in the shared-transport variant), with the
  client's trace bound to the request when there is one, and the outcome is exactly what
  the HTTP client returns for that request.
\<close>

theorem Do_fetches_token_then_dispatches:
  fixes c :: "('t, 'r, 'p GetToken_method) Client"
  shows
  "(TokenProvider c (provider w) (clock w) = ((tok, Some e), p') \<longrightarrow>
      Do http_Do c req w = ((None, Some e), w\<lparr>provider := p'\<rparr>) \<and>
      net (snd (Do http_Do c req w)) = net w \<and>
      Do_shared http_Do c req w = ((None, Some e), w\<lparr>provider := p'\<rparr>) \<and>
      net (snd (Do_shared http_Do c req w)) = net w) \<and>
   (TokenProvider c (provider w) (clock w) = ((tok, None), p') \<longrightarrow>
      Do http_Do c req w =
        (let sent = (if Trace c \<noteq> None then req\<lparr>ctx_trace := Trace c\<rparr> else req)
                      \<lparr>Header := (Header req)(''Authorization'' \<mapsto> [''Bearer '' @ tok])\<rparr>
         in (fst (http_Do (HTTPClient c) sent (net w)),
             w\<lparr>provider := p', net := snd (http_Do (HTTPClient c) sent (net w))\<rparr>)) \<and>
      Do_shared http_Do c req w =
        (let sent = (if Trace c \<noteq> None then req\<lparr>ctx_trace := Trace c\<rparr> else req)
                      \<lparr>Header := (Header req)(''Authorization'' \<mapsto> [''bearer '' @ tok])\<rparr>
         in (fst (http_Do (HTTPClient c) sent (net w)),
             w\<lparr>provider := p', net := snd (http_Do (HTTPClient c) sent (net w))\<rparr>)))"
  by (simp add: Do_def Do_shared_def Header_Set_def Let_def split: prod.splits)

text \<open>
  A provider that fails, and one that hands out \<open>tok\<close>, in front of a network that
  records what it is sent and answers 200.
\<close>

theorem Do_fetches_token_then_dispatches_witness:
  "Do (\<lambda>h r n. ((Some \<lparr>StatusCode = 200, Body = ''ok''\<rparr>, None), n @ [r]))
      \<lparr>Host = [], Development = False, HTTPClient = \<lparr>Transport = None :: nat option, Timeout = 0\<rparr>,
       TokenProvider = (\<lambda>p t. (([], Some (New ''fail'')), Suc p)),
       Logger = None, Trace = None :: nat option\<rparr>
      \<lparr>Method = ''GET'', URL = ''/'', Header = Map.empty, ctx_trace = None\<rparr>
      \<lparr>clock = time_Unix 0, provider = 0 :: nat, net = []\<rparr>
    = ((None, Some (New ''fail'')), \<lparr>clock = time_Unix 0, provider = 1, net = []\<rparr>) \<and>
   Do (\<lambda>h r n. ((Some \<lparr>StatusCode = 200, Body = ''ok''\<rparr>, None), n @ [r]))
      \<lparr>Host = [], Development = False, HTTPClient = \<lparr>Transport = None :: nat option, Timeout = 0\<rparr>,
       TokenProvider = (\<lambda>p t. ((''tok'', None), Suc p)),
       Logger = None, Trace = None :: nat option\<rparr>
      \<lparr>Method = ''GET'', URL = ''/'', Header = Map.empty, ctx_trace = None\<rparr>
      \<lparr>clock = time_Unix 0, provider = 0 :: nat, net = []\<rparr>
    = ((Some \<lparr>StatusCode = 200, Body = ''ok''\<rparr>, None),
       \<lparr>clock = time_Unix 0, provider = 1,
        net = [\<lparr>Method = ''GET'', URL = ''/'',
                Header = [''Authorization'' \<mapsto> [''Bearer tok'']], ctx_trace = None\<rparr>]\<rparr>)"
  using
    Do_fetches_token_then_dispatches
      [of "\<lparr>Host = [], Development = False, HTTPClient = \<lparr>Transport = None :: nat option, Timeout = 0\<rparr>,
            TokenProvider = (\<lambda>p t. (([], Some (New ''fail'')), Suc p)),
            Logger = None, Trace = None :: nat option\<rparr>"
          "\<lparr>clock = time_Unix 0, provider = 0 :: nat, net = []\<rparr>" "[]" "New ''fail''" 1
          "\<lambda>h r n. ((Some \<lparr>StatusCode = 200, Body = ''ok''\<rparr>, None), n @ [r])"
          "\<lparr>Method = ''GET'', URL = ''/'', Header = Map.empty, ctx_trace = None\<rparr>"]
    Do_fetches_token_then_dispatches
      [of "\<lparr>Host = [], Development = False, HTTPClient = \<lparr>Transport = None :: nat option, Timeout = 0\<rparr>,
            TokenProvider = (\<lambda>p t. ((''tok'', None), Suc p)),
            Logger = None, Trace = None :: nat option\<rparr>"
          "\<lparr>clock = time_Unix 0, provider = 0 :: nat, net = []\<rparr>" "''tok''" "New ''fail''" 1
          "\<lambda>h r n. ((Some \<lparr>StatusCode = 200, Body = ''ok''\<rparr>, None), n @ [r])"
          "\<lparr>Method = ''GET'', URL = ''/'', Header = Map.empty, ctx_trace = None\<rparr>"]
  by simp

section \<open>Transport defaults\<close>

text \<open>
  The configured initializer, given the default configuration, hands
  \<^verbatim>\<open>http2.ConfigureTransports\<close> a transport whose TLS configuration has
  \<^verbatim>\<open>MinVersion = VersionTLS13\<close>.
\<close>

lemma ConfigureHTTPClientInitializer_DefaultConfig:
  "ConfigureHTTPClientInitializer conf dt DefaultConfig =
    (case conf (dt\<lparr>TLSClientConfig := Some (tls_Config_zero\<lparr>MinVersion := VersionTLS13\<rparr>),
                    MaxConnsPerHost := 30, MaxIdleConnsPerHost := 30,
                    IdleConnTimeout := 90 * Second,
                    DialContext := Some \<lparr>Dialer_Timeout = 30 * Second,
                                         Dialer_KeepAlive = 30 * Second\<rparr>\<rparr>) of
       Inl err \<Rightarrow> Inl err
     | Inr tr2 \<Rightarrow> Inr \<lparr>Transport = Some (HTTP2 (tr2\<lparr>ReadIdleTimeout := 15 * Second\<rparr>)),
                       Timeout = 60 * Second\<rparr>)"
  by (simp add: ConfigureHTTPClientInitializer_def DefaultConfig_def defaultConfig_def
      split: sum.splits)

text \<open>
  Claim C5, at the default initializer. Whatever \<^verbatim>\<open>http.DefaultTransport\<close> is, the client
  of \<^verbatim>\<open>DefaultHTTPClientInitializer\<close> attempts HTTP/2, but its TLS configuration is
  \<^verbatim>\<open>{MaxVersion: VersionTLS13}\<close>: \<^verbatim>\<open>MinVersion\<close> stays 0, so the minimum in force is the
  library's default and a TLS 1.2 handshake is accepted. The source comments the line
  with "Use TLS 1.3 only".
\<close>

theorem DefaultHTTPClientInitializer_MinVersion_unset:
  "(case DefaultHTTPClientInitializer dt of
      Inl err \<Rightarrow> False
    | Inr cli \<Rightarrow>
        Transport cli = Some (HTTP1 (dt\<lparr>TLSClientConfig := Some (tls_Config_zero\<lparr>MaxVersion := VersionTLS13\<rparr>),
                                         MaxIdleConnsPerHost := 100, MaxConnsPerHost := 100,
                                         ForceAttemptHTTP2 := True\<rparr>)) \<and>
        client_tls cli =
          Some \<lparr>MinVersion = 0, MaxVersion = VersionTLS13, InsecureSkipVerify = False, NextProtos = []\<rparr> \<and>
        map_option (minimum_version VersionTLS12) (client_tls cli) = Some VersionTLS12 \<and>
        map_option (minimum_version VersionTLS12) (client_tls cli) \<noteq> Some VersionTLS13)"
  by (simp add: DefaultHTTPClientInitializer_def client_tls_def minimum_version_def
      tls_Config_zero_def VersionTLS12_def VersionTLS13_def)

section \<open>The option pipeline\<close>

subsection \<open>The library's insertion sort meets the contract of \<^verbatim>\<open>sort.Slice\<close>\<close>

lemma mset_sift: "mset (sift lt x ys) = add_mset x (mset ys)"
  by (induction ys) auto

lemma mset_insertion_loop: "mset (insertion_loop lt pre xs) = mset pre + mset xs"
  by (induction xs arbitrary: pre) (auto simp: mset_sift)

lemma set_sift: "set (sift lt x ys) = insert x (set ys)"
  by (induction ys) auto

lemma sorted_sift:
  "sorted (map key (rev ys)) \<Longrightarrow> sorted (map key (rev (sift (\<lambda>a b. key a < key b) x ys)))"
  by (induction ys) (auto simp: sorted_append set_sift)

lemma sorted_insertion_loop:
  "sorted (map key (rev pre)) \<Longrightarrow>
   sorted (map key (insertion_loop (\<lambda>a b. key a < key b) pre xs))"
  by (induction xs arbitrary: pre) (auto simp: sorted_sift)

lemma insertionSort_ok: "sort_Slice_ok insertionSort key"
  by (simp add: sort_Slice_ok_def insertionSort_def mset_insertion_loop sorted_insertion_loop)

lemma sorted_perm_unique:
  fixes key :: "'a \<Rightarrow> int"
  assumes "mset a = mset b" "sorted (map key a)" "sorted (map key b)" "distinct (map key a)"
  shows "a = b"
proof -
  have d: "distinct (map key b)"
    using assms(1,4) by (metis mset_map mset_eq_imp_distinct_iff)
  have s: "set (map key a) = set (map key b)"
    using assms(1) by (metis mset_map set_mset_mset)
  have m: "map key a = map key b"
    using sorted_distinct_set_unique [OF assms(2) assms(4) assms(3) d s] .
  have "inj_on key (set a \<union> set b)"
    using assms(1,4) by (metis distinct_map mset_eq_setD sup.idem)
  then show ?thesis using m by (simp add: inj_on_map_eq_map)
qed

lemma sort_Slice_unique:
  assumes "sort_Slice_ok S key" "distinct (map key xs)" "mset ys = mset xs"
  shows "S (\<lambda>a b. key a < key b) ys = S (\<lambda>a b. key a < key b) xs"
proof (rule sorted_perm_unique [where key = key])
  show "mset (S (\<lambda>a b. key a < key b) ys) = mset (S (\<lambda>a b. key a < key b) xs)"
    using assms by (simp add: sort_Slice_ok_def)
  show "sorted (map key (S (\<lambda>a b. key a < key b) ys))" using assms by (simp add: sort_Slice_ok_def)
  show "sorted (map key (S (\<lambda>a b. key a < key b) xs))" using assms by (simp add: sort_Slice_ok_def)
  have "mset (map key (S (\<lambda>a b. key a < key b) ys)) = mset (map key xs)"
    using assms by (simp add: sort_Slice_ok_def)
  then show "distinct (map key (S (\<lambda>a b. key a < key b) ys))"
    using assms(2) by (metis mset_eq_imp_distinct_iff)
qed

lemma sort_Slice_sorted_id:
  assumes "sort_Slice_ok S key" "distinct (map key xs)" "sorted (map key xs)"
  shows "S (\<lambda>a b. key a < key b) xs = xs"
proof (rule sorted_perm_unique [where key = key])
  show "mset (S (\<lambda>a b. key a < key b) xs) = mset xs" using assms by (simp add: sort_Slice_ok_def)
  show "sorted (map key (S (\<lambda>a b. key a < key b) xs))" using assms by (simp add: sort_Slice_ok_def)
  show "sorted (map key xs)" by fact
  have "mset (map key (S (\<lambda>a b. key a < key b) xs)) = mset (map key xs)"
    using assms by (simp add: sort_Slice_ok_def)
  then show "distinct (map key (S (\<lambda>a b. key a < key b) xs))"
    using assms(2) by (metis mset_eq_imp_distinct_iff)
qed

subsection \<open>What each public option does to the client\<close>

lemma call_f_WithDevelopment: "call_f WithDevelopment (c, w) = (c\<lparr>Development := True\<rparr>, w)"
  by (simp add: call_f_def WithDevelopment_def)

lemma call_f_WithLogger:
  "call_f (WithLogger lg) (c, w) = (if lg \<noteq> None then c\<lparr>Logger := lg\<rparr> else c, w)"
  by (simp add: call_f_def WithLogger_def)

lemma call_f_WithTransport:
  "call_f (WithTransport tr) (c, w) =
     (if tr \<noteq> None then c\<lparr>HTTPClient := (HTTPClient c)\<lparr>Transport := tr\<rparr>\<rparr> else c, w)"
  by (simp add: call_f_def WithTransport_def)

lemma call_f_WithClientTimeout:
  "call_f (WithClientTimeout timeout) (c, w) =
     (c\<lparr>HTTPClient := (HTTPClient c)\<lparr>Timeout := timeout\<rparr>\<rparr>, w)"
  by (simp add: call_f_def WithClientTimeout_def)

lemma call_f_WithClientTrace:
  "call_f (WithClientTrace fac) (c, w) =
     (if fst (fac (Logger c) w) \<noteq> None then c\<lparr>Trace := fst (fac (Logger c) w)\<rparr> else c,
      snd (fac (Logger c) w))"
  by (simp add: call_f_def WithClientTrace_def split: prod.splits)

lemmas call_f_public = call_f_WithDevelopment call_f_WithLogger call_f_WithTransport
  call_f_WithClientTimeout call_f_WithClientTrace

lemma public_option_Logger:
  assumes "public_option opt" "Logger (fst cw) \<noteq> None"
  shows "Logger (fst (call_f opt cw)) \<noteq> None"
  using assms by (cases cw; cases opt rule: public_option.cases) (auto simp: call_f_public)

lemma apply_opts_Logger:
  "\<forall>opt\<in>set opts. public_option opt \<Longrightarrow> Logger (fst cw) \<noteq> None \<Longrightarrow>
   Logger (fst (apply_opts opts cw)) \<noteq> None"
proof (induction opts arbitrary: cw)
  case Nil
  then show ?case by simp
next
  case (Cons opt opts)
  have "Logger (fst (call_f opt cw)) \<noteq> None"
    using Cons.prems by (simp add: public_option_Logger)
  then show ?case using Cons.IH [of "call_f opt cw"] Cons.prems by simp
qed

lemma NewClient_eq:
  "NewClient S init host tp opts w =
    (case init of
       Inl err \<Rightarrow> ((None, Some err), w)
     | Inr cli \<Rightarrow>
         ((Some (fst (apply_opts (S (\<lambda>a b. opt_order a < opt_order b) opts)
                        (initial_Client cli host tp, w))), None),
          snd (apply_opts (S (\<lambda>a b. opt_order a < opt_order b) opts)
                 (initial_Client cli host tp, w))))"
  by (simp add: NewClient_def initial_Client_def split: sum.splits prod.splits)

lemma sort_Slice_set: "sort_Slice_ok S key \<Longrightarrow> set (S (\<lambda>a b. key a < key b) xs) = set xs"
  by (metis sort_Slice_ok_def set_mset_mset)

lemma opt_order_public [simp]:
  "opt_order WithDevelopment = 1"
  "opt_order (WithLogger lg) = 2"
  "opt_order (WithTransport tr) = 3"
  "opt_order (WithClientTimeout timeout) = 4"
  "opt_order (WithClientTrace fac) = 5"
  by (simp_all add: WithDevelopment_def WithLogger_def WithTransport_def WithClientTimeout_def
      WithClientTrace_def Development_order_def Logger_order_def Transport_order_def
      ClientTimeout_order_def ClientTrace_order_def)

lemma apply_opts_append: "apply_opts (xs @ ys) cw = apply_opts ys (apply_opts xs cw)"
  by (induction xs arbitrary: cw) auto

lemma sorted_split_at_max:
  fixes key :: "'a \<Rightarrow> int"
  shows "sorted (map key xs) \<Longrightarrow> \<forall>x\<in>set xs. key x \<le> k \<Longrightarrow>
    filter (\<lambda>x. key x \<noteq> k) xs @ filter (\<lambda>x. key x = k) xs = xs"
proof (induction xs)
  case Nil
  then show ?case by simp
next
  case (Cons x xs)
  show ?case
  proof (cases "key x = k")
    case True
    then have "\<forall>y\<in>set xs. key y = k" using Cons.prems by fastforce
    then have "filter (\<lambda>x. key x \<noteq> k) xs = []" "filter (\<lambda>x. key x = k) xs = xs"
      by (simp_all add: filter_empty_conv filter_id_conv)
    then show ?thesis using True by simp
  next
    case False
    then show ?thesis using Cons by simp
  qed
qed

lemma dependent_public_Logger:
  assumes "public_option opt" "dependent_option opt"
  shows "Logger (fst (call_f opt cw)) = Logger (fst cw)"
  using assms
  by (cases cw; cases opt rule: public_option.cases)
     (auto simp: call_f_public dependent_option_def ClientTrace_order_def)

lemma apply_dependent_Logger:
  "\<forall>opt\<in>set opts. public_option opt \<and> dependent_option opt \<Longrightarrow>
   Logger (fst (apply_opts opts cw)) = Logger (fst cw)"
proof (induction opts arbitrary: cw)
  case Nil
  then show ?case by simp
next
  case (Cons opt opts)
  then show ?case using dependent_public_Logger [of opt cw] by simp
qed

lemma public_option_order_le: "public_option opt \<Longrightarrow> opt_order opt \<le> ClientTrace_order"
  by (cases opt rule: public_option.cases) (auto simp: ClientTrace_order_def)

subsection \<open>The logger is never nil\<close>

text \<open>
  Claim C10. \<^verbatim>\<open>NewClient\<close> starts from a client whose logger is the discard logger;
  \<^verbatim>\<open>WithLogger(nil)\<close> leaves the client as it is, and so does a \<^verbatim>\<open>WithClientTrace\<close> whose
  factory returns nil. Hence, whatever public options are passed and in whatever order
  the sort arranges them, the client \<^verbatim>\<open>NewClient\<close> returns has a non-nil logger.
\<close>

theorem NewClient_Logger_never_nil:
  assumes "sort_Slice_ok S opt_order"
    and "\<forall>opt\<in>set opts. public_option opt"
    and "NewClient S init host tp opts w = ((Some c, err), w')"
  shows "Logger c \<noteq> None \<and>
         Logger (initial_Client cli host tp :: ('t, 'r, 'g) Client) = Some (slog_New (NewTextHandler Discard)) \<and>
         call_f (WithLogger None) (c1, w1) = (c1, w1) \<and>
         (fst (fac (Logger c1) w1) = None \<longrightarrow> fst (call_f (WithClientTrace fac) (c1, w1)) = c1)"
proof -
  obtain cli' where i: "init = Inr cli'"
    using assms(3) by (cases init) (auto simp: NewClient_eq)
  let ?s = "S (\<lambda>a b. opt_order a < opt_order b) opts"
  have "\<forall>opt\<in>set ?s. public_option opt"
    using assms(1,2) by (simp add: sort_Slice_set)
  then have "Logger (fst (apply_opts ?s (initial_Client cli' host tp, w))) \<noteq> None"
    by (rule apply_opts_Logger) (simp add: initial_Client_def)
  then have "Logger c \<noteq> None" using assms(3) i by (simp add: NewClient_eq)
  then show ?thesis by (simp add: initial_Client_def call_f_public)
qed

text \<open>
  A trace option whose factory returns nil, a nil logger and the development switch, in
  this registration order.
\<close>

theorem NewClient_Logger_never_nil_witness:
  "NewClient insertionSort (Inr \<lparr>Transport = None :: nat option, Timeout = 0\<rparr>) ''host'' ()
     [WithClientTrace (\<lambda>l w. (None :: unit option, w)), WithLogger None, WithDevelopment] () =
     ((Some \<lparr>Host = ''host'', Development = True, HTTPClient = \<lparr>Transport = None, Timeout = 0\<rparr>,
             TokenProvider = (), Logger = Some (slog_New (NewTextHandler Discard)), Trace = None\<rparr>,
       None), ()) \<and>
   Logger \<lparr>Host = ''host'', Development = True, HTTPClient = \<lparr>Transport = None :: nat option, Timeout = 0\<rparr>,
           TokenProvider = (), Logger = Some (slog_New (NewTextHandler Discard)),
           Trace = None :: unit option\<rparr> \<noteq> None"
proof -
  let ?opts = "[WithClientTrace (\<lambda>l w. (None :: unit option, w)), WithLogger None, WithDevelopment]
     :: (unit, nat, unit, unit) Option list"
  have h1: "sort_Slice_ok insertionSort (opt_order :: (unit, nat, unit, unit) Option \<Rightarrow> int)"
    by (rule insertionSort_ok)
  have h2: "\<forall>opt\<in>set ?opts. public_option opt"
    by (simp add: public_option.intros)
  have h3: "NewClient insertionSort (Inr \<lparr>Transport = None :: nat option, Timeout = 0\<rparr>) ''host'' ()
     ?opts () =
     ((Some \<lparr>Host = ''host'', Development = True, HTTPClient = \<lparr>Transport = None, Timeout = 0\<rparr>,
             TokenProvider = (), Logger = Some (slog_New (NewTextHandler Discard)), Trace = None\<rparr>,
       None), ())"
    by (simp add: NewClient_eq insertionSort_def call_f_public initial_Client_def)
  from NewClient_Logger_never_nil [OF h1 h2 h3] h3 show ?thesis by simp
qed

subsection \<open>One pass, in rank order\<close>

text \<open>
  Claim C6, as the specification states it, has every dependent option applied a second
  time after the ordered pass. \<^verbatim>\<open>NewClient\<close> of client.go does not: a trace factory that
  counts its calls is called once, where the two-pass pipeline of the specification
  calls it twice.
\<close>

theorem NewClient_two_pass_counterexample:
  "NewClient insertionSort (Inr \<lparr>Transport = None :: nat option, Timeout = 0\<rparr>) [] ()
     [WithClientTrace (\<lambda>l n. (None, Suc n)) :: (unit, nat, unit, nat) Option] 0
   \<noteq> NewClient_two_pass_spec insertionSort (Inr \<lparr>Transport = None, Timeout = 0\<rparr>) [] ()
     [WithClientTrace (\<lambda>l n. (None, Suc n))] 0"
  by (simp add: NewClient_eq NewClient_two_pass_spec_def insertionSort_def call_f_public
      initial_Client_def dependent_option_def ClientTrace_order_def)

text \<open>
  Claim C6, amended. \<^verbatim>\<open>NewClient\<close> applies the options in one pass, each exactly once,
  in ascending order of rank (the list applied is a permutation of the list passed, sorted
  by rank), and no option is applied a second time. With the public options, the
  request-trace options have the highest rank and come last, and the logger they meet
  is already the logger of the finished client.
\<close>

theorem NewClient_single_ordered_pass:
  assumes "sort_Slice_ok S opt_order"
  shows "(let applied = S (\<lambda>a b. opt_order a < opt_order b) opts;
              c0 = initial_Client cli host tp
          in mset applied = mset opts \<and> sorted (map opt_order applied) \<and>
             NewClient S (Inr cli) host tp opts w =
               ((Some (fst (apply_opts applied (c0, w))), None), snd (apply_opts applied (c0, w))) \<and>
             ((\<forall>opt\<in>set opts. public_option opt) \<longrightarrow>
                applied = filter (\<lambda>opt. \<not> dependent_option opt) applied @ filter dependent_option applied \<and>
                Logger (fst (apply_opts (filter (\<lambda>opt. \<not> dependent_option opt) applied) (c0, w))) =
                Logger (fst (apply_opts applied (c0, w)))))"
proof -
  let ?a = "S (\<lambda>a b. opt_order a < opt_order b) opts"
  let ?c0 = "initial_Client cli host tp :: ('a, 'b, 'c) Client"
  have m: "mset ?a = mset opts" and s: "sorted (map opt_order ?a)"
    using assms by (simp_all add: sort_Slice_ok_def)
  have n: "NewClient S (Inr cli) host tp opts w =
      ((Some (fst (apply_opts ?a (?c0, w))), None), snd (apply_opts ?a (?c0, w)))"
    by (simp add: NewClient_eq)
  have p: "?a = filter (\<lambda>opt. \<not> dependent_option opt) ?a @ filter dependent_option ?a \<and>
      Logger (fst (apply_opts (filter (\<lambda>opt. \<not> dependent_option opt) ?a) (?c0, w))) =
      Logger (fst (apply_opts ?a (?c0, w)))"
    if pub: "\<forall>opt\<in>set opts. public_option opt"
  proof -
    have pa: "\<forall>opt\<in>set ?a. public_option opt"
      using pub assms by (simp add: sort_Slice_set)
    then have le: "\<forall>opt\<in>set ?a. opt_order opt \<le> ClientTrace_order"
      by (simp add: public_option_order_le)
    have split: "filter (\<lambda>opt. \<not> dependent_option opt) ?a @ filter dependent_option ?a = ?a"
      unfolding dependent_option_def using sorted_split_at_max [OF s le] .
    have "Logger (fst (apply_opts (filter dependent_option ?a)
             (apply_opts (filter (\<lambda>opt. \<not> dependent_option opt) ?a) (?c0, w)))) =
          Logger (fst (apply_opts (filter (\<lambda>opt. \<not> dependent_option opt) ?a) (?c0, w)))"
      by (rule apply_dependent_Logger) (use pa in simp)
    then have "Logger (fst (apply_opts ?a (?c0, w))) =
          Logger (fst (apply_opts (filter (\<lambda>opt. \<not> dependent_option opt) ?a) (?c0, w)))"
      using split by (metis apply_opts_append)
    then show ?thesis using split by simp
  qed
  show ?thesis using m s n p by (simp add: Let_def)
qed

theorem NewClient_single_ordered_pass_witness:
  "(let applied = insertionSort (\<lambda>a b. opt_order a < opt_order b)
                    [WithClientTrace (\<lambda>l n. (l, Suc n)), WithLogger (Some (slog_New (Handler 7)))
                       :: (slog_Logger, nat, unit, nat) Option]
    in applied = [WithLogger (Some (slog_New (Handler 7))), WithClientTrace (\<lambda>l n. (l, Suc n))]) \<and>
   NewClient insertionSort (Inr \<lparr>Transport = None :: nat option, Timeout = 0\<rparr>) [] ()
     [WithClientTrace (\<lambda>l n. (l, Suc n)), WithLogger (Some (slog_New (Handler 7)))] (0 :: nat) =
     ((Some \<lparr>Host = [], Development = False, HTTPClient = \<lparr>Transport = None, Timeout = 0\<rparr>,
             TokenProvider = (), Logger = Some (slog_New (Handler 7)),
             Trace = Some (slog_New (Handler 7))\<rparr>, None), 1)"
proof -
  let ?opts = "[WithClientTrace (\<lambda>l n. (l, Suc n)), WithLogger (Some (slog_New (Handler 7)))]
     :: (slog_Logger, nat, unit, nat) Option list"
  have h1: "sort_Slice_ok insertionSort (opt_order :: (slog_Logger, nat, unit, nat) Option \<Rightarrow> int)"
    by (rule insertionSort_ok)
  have h2: "\<forall>opt\<in>set ?opts. public_option opt"
    by (simp add: public_option.intros)
  have s: "insertionSort (\<lambda>a b. opt_order a < opt_order b) ?opts =
      [WithLogger (Some (slog_New (Handler 7))), WithClientTrace (\<lambda>l n. (l, Suc n))]"
    by (simp add: insertionSort_def)
  from NewClient_single_ordered_pass
         [OF h1, of ?opts "\<lparr>Transport = None :: nat option, Timeout = 0\<rparr>" "[]" "()" 0] h2 s
  show ?thesis by (simp add: Let_def call_f_public initial_Client_def)
qed

subsection \<open>Registration order\<close>

text \<open>
  Claim C7, as the specification states it, makes the finished client independent of the
  order in which any set of options is registered. Two logger options have the same
  rank; the sort leaves such options in registration order (an insertion sort, for a
  slice this short), and the one registered last wins.
\<close>

theorem NewClient_same_rank_counterexample:
  "NewClient insertionSort (Inr \<lparr>Transport = None :: nat option, Timeout = 0\<rparr>) [] ()
     [WithLogger (Some (slog_New (Handler 1))) :: (unit, nat, unit, unit) Option,
      WithLogger (Some (slog_New (Handler 2)))] ()
   \<noteq> NewClient insertionSort (Inr \<lparr>Transport = None, Timeout = 0\<rparr>) [] ()
     [WithLogger (Some (slog_New (Handler 2))),
      WithLogger (Some (slog_New (Handler 1)))] ()"
  by (simp add: NewClient_eq insertionSort_def call_f_public initial_Client_def)

text \<open>
  Claim C7, amended. When no two options have the same rank (at most one option of each
  kind), every registration order of the same options gives the same result. In
  particular a logger option with logger \<open>L\<close> and a request-trace option give, in
  either order, a client with logger \<open>L\<close> whose trace is what the factory returns for
  \<open>L\<close>, the factory being called exactly once.
\<close>

theorem NewClient_registration_order:
  assumes "sort_Slice_ok S opt_order"
  shows "(distinct (map opt_order opts) \<and> mset opts' = mset opts \<longrightarrow>
           NewClient S init host tp opts' w = NewClient S init host tp opts w) \<and>
         NewClient S init host tp [WithClientTrace fac, WithLogger (Some L)] w =
         NewClient S init host tp [WithLogger (Some L), WithClientTrace fac] w \<and>
         NewClient S (Inr cli) host tp [WithClientTrace fac, WithLogger (Some L)] w =
           ((Some ((initial_Client cli host tp)\<lparr>Logger := Some L, Trace := fst (fac (Some L) w)\<rparr>), None),
            snd (fac (Some L) w))"
proof -
  let ?lt = "\<lambda>a b :: ('a, 'b, 'c, 'd) Option. opt_order a < opt_order b"
  have a: "NewClient S init host tp opts' w = NewClient S init host tp opts w"
    if "distinct (map opt_order opts)" "mset opts' = mset opts"
    using sort_Slice_unique [OF assms that] by (cases init) (simp_all add: NewClient_eq)
  have s1: "S ?lt [WithLogger (Some L), WithClientTrace fac] = [WithLogger (Some L), WithClientTrace fac]"
    by (rule sort_Slice_sorted_id [OF assms]) simp_all
  have s2: "S ?lt [WithClientTrace fac, WithLogger (Some L)] = S ?lt [WithLogger (Some L), WithClientTrace fac]"
    by (rule sort_Slice_unique [OF assms]) simp_all
  have b: "NewClient S init host tp [WithClientTrace fac, WithLogger (Some L)] w =
         NewClient S init host tp [WithLogger (Some L), WithClientTrace fac] w"
    using s2 by (cases init) (simp_all add: NewClient_eq)
  have c: "NewClient S (Inr cli) host tp [WithClientTrace fac, WithLogger (Some L)] w =
           ((Some ((initial_Client cli host tp)\<lparr>Logger := Some L, Trace := fst (fac (Some L) w)\<rparr>), None),
            snd (fac (Some L) w))"
    using s1 s2 by (simp add: NewClient_eq call_f_public initial_Client_def)
  show ?thesis using a b c by blast
qed

theorem NewClient_registration_order_witness:
  "NewClient insertionSort (Inr \<lparr>Transport = None :: nat option, Timeout = 0\<rparr>) [] ()
     [WithDevelopment, WithClientTrace (\<lambda>l n. (l, Suc n)), WithLogger (Some (slog_New (Handler 7)))] (0 :: nat) =
   NewClient insertionSort (Inr \<lparr>Transport = None :: nat option, Timeout = 0\<rparr>) [] ()
     [WithLogger (Some (slog_New (Handler 7))), WithDevelopment, WithClientTrace (\<lambda>l n. (l, Suc n))] 0"
proof -
  let ?a = "[WithLogger (Some (slog_New (Handler 7))), WithDevelopment, WithClientTrace (\<lambda>l n. (l, Suc n))]
     :: (slog_Logger, nat, unit, nat) Option list"
  let ?b = "[WithDevelopment, WithClientTrace (\<lambda>l n. (l, Suc n)), WithLogger (Some (slog_New (Handler 7)))]
     :: (slog_Logger, nat, unit, nat) Option list"
  have h1: "sort_Slice_ok insertionSort (opt_order :: (slog_Logger, nat, unit, nat) Option \<Rightarrow> int)"
    by (rule insertionSort_ok)
  have h2: "distinct (map opt_order ?a) \<and> mset ?b = mset ?a"
    by simp
  from NewClient_registration_order
         [OF h1, of ?a ?b "Inr \<lparr>Transport = None :: nat option, Timeout = 0\<rparr>" "[]" "()" 0] h2
  show ?thesis by blast
qed

section \<open>The encodings lose nothing\<close>

subsection \<open>Base64\<close>

lemma length_encodeURL: "length encodeURL = 64"
  by (simp add: encodeURL_def)

lemma distinct_encodeURL: "distinct encodeURL"
  by (simp add: encodeURL_def)

lemma index_nth_distinct:
  "distinct xs \<Longrightarrow> i < length xs \<Longrightarrow> length (takeWhile (\<lambda>x. x \<noteq> xs ! i) xs) = i"
proof (induction xs arbitrary: i)
  case Nil
  then show ?case by simp
next
  case (Cons a xs)
  then show ?case by (cases i) auto
qed

lemma url_index_nth: "v < 64 \<Longrightarrow> url_index (encodeURL ! v) = v"
  unfolding url_index_def
  by (rule index_nth_distinct) (simp_all add: distinct_encodeURL length_encodeURL)

lemma sextet_bound_mid: fixes a b :: nat shows "b < 256 \<Longrightarrow> a mod 4 * 16 + b div 16 < 64"
proof -
  assume "b < 256"
  then have "b div 16 < 16" by simp
  moreover have "a mod 4 < 4" by simp
  ultimately show ?thesis by linarith
qed

lemma sextet_bound_low: fixes b c :: nat shows "c < 256 \<Longrightarrow> b mod 16 * 4 + c div 64 < 64"
proof -
  assume "c < 256"
  then have "c div 64 < 4" by simp
  moreover have "b mod 16 < 16" by simp
  ultimately show ?thesis by linarith
qed

lemma sextet_bound_high: fixes a :: nat shows "a < 256 \<Longrightarrow> a div 4 < 64"
  by simp

lemma byte_back_first: fixes a b :: nat assumes "b < 256" shows "a div 4 * 4 + (a mod 4 * 16 + b div 16) div 16 = a"
proof -
  have "b div 16 < 16" using assms by simp
  then have "(a mod 4 * 16 + b div 16) div 16 = a mod 4" by simp
  then show ?thesis by simp
qed

lemma byte_back_second: fixes a b c :: nat assumes "b < 256" "c < 256"
  shows "(a mod 4 * 16 + b div 16) mod 16 * 16 + (b mod 16 * 4 + c div 64) div 4 = b"
proof -
  have "b div 16 < 16" using assms by simp
  then have 1: "(a mod 4 * 16 + b div 16) mod 16 = b div 16" by simp
  have "c div 64 < 4" using assms by simp
  then have 2: "(b mod 16 * 4 + c div 64) div 4 = b mod 16" by simp
  show ?thesis unfolding 1 2 by simp
qed

lemma byte_back_third: fixes b c :: nat assumes "c < 256"
  shows "(b mod 16 * 4 + c div 64) mod 4 * 64 + c mod 64 = c"
proof -
  have "c div 64 < 4" using assms by simp
  then have "(b mod 16 * 4 + c div 64) mod 4 = c div 64" by simp
  then show ?thesis by simp
qed

lemma byte_back_second_short: fixes a b :: nat assumes "b < 256"
  shows "(a mod 4 * 16 + b div 16) mod 16 * 16 + (b mod 16 * 4) div 4 = b"
proof -
  have "b div 16 < 16" using assms by simp
  then have 1: "(a mod 4 * 16 + b div 16) mod 16 = b div 16" by simp
  show ?thesis unfolding 1 by simp
qed

lemma byte_back_first_short: fixes a :: nat shows "a div 4 * 4 + (a mod 4 * 16) div 16 = a"
  by simp

lemma sextets_lt_64: "\<forall>b\<in>set bs. b < 256 \<Longrightarrow> \<forall>v\<in>set (sextets bs). v < 64"
proof (induction bs rule: sextets.induct)
  case (1 a b c rest)
  then show ?case using sextet_bound_mid [of b a] sextet_bound_low [of c b] sextet_bound_high [of a] by simp
next
  case (2 a b)
  then show ?case using sextet_bound_mid [of b a] sextet_bound_high [of a] by simp
next
  case (3 a)
  then show ?case using sextet_bound_high [of a] by simp
next
  case 4
  then show ?case by simp
qed

lemma length_sextets: "length (sextets bs) = (4 * length bs + 2) div 3"
  by (induction bs rule: sextets.induct) simp_all

lemma unsextets_sextets: "\<forall>b\<in>set bs. b < 256 \<Longrightarrow> unsextets (sextets bs) = bs"
proof (induction bs rule: sextets.induct)
  case (1 a b c rest)
  then show ?case using byte_back_first [of b a] byte_back_second [of b c a] byte_back_third [of c b] by simp
next
  case (2 a b)
  then show ?case using byte_back_first [of b a] byte_back_second_short [of b a] by simp
next
  case (3 a)
  then show ?case using byte_back_first_short [of a] by simp
next
  case 4
  then show ?case by simp
qed

lemma bytes_lt_256: "\<forall>b\<in>set (map of_char (src :: string)). b < (256 :: nat)"
  by simp

lemma DecodeString_EncodeToString: "DecodeString (EncodeToString src) = src"
proof -
  let ?bs = "map of_char src :: nat list"
  have v: "\<forall>v\<in>set (sextets ?bs). v < 64"
    by (rule sextets_lt_64) simp
  have "map url_index (map (\<lambda>v. encodeURL ! v) (sextets ?bs)) = sextets ?bs"
    using v by (simp add: map_idI url_index_nth)
  then have "DecodeString (EncodeToString src) = map char_of (unsextets (sextets ?bs))"
    by (simp add: DecodeString_def EncodeToString_def)
  also have "\<dots> = map char_of ?bs"
    using unsextets_sextets [of ?bs] by simp
  also have "\<dots> = src"
    by (simp add: map_idI)
  finally show ?thesis .
qed


lemma EncodeToString_alphabet: "set (EncodeToString src) \<subseteq> set encodeURL"
proof -
  have "\<forall>v\<in>set (sextets (map of_char src)). v < 64"
    by (rule sextets_lt_64) simp
  then show ?thesis
    by (auto simp: EncodeToString_def length_encodeURL)
qed

lemma no_dot_in_alphabet: "CHR ''.'' \<notin> set encodeURL" "CHR ''='' \<notin> set encodeURL"
  by (simp_all add: encodeURL_def)

lemma EncodeToString_no_dot: "CHR ''.'' \<notin> set (EncodeToString src)" "CHR ''='' \<notin> set (EncodeToString src)"
  using EncodeToString_alphabet [of src] no_dot_in_alphabet by blast+

lemma length_EncodeToString: "length (EncodeToString src) = (4 * length src + 2) div 3"
  by (simp add: EncodeToString_def length_sextets)


subsection \<open>Decimal numbers and the payload's JSON\<close>

declare digits.simps [simp del]









section \<open>The compact token\<close>

lemma Is_refl: "Is e e"
  by (cases e) simp_all

lemma Is_Errorf: "Is (Errorf m e) e"
  by (simp add: Is_refl)

lemma SignedString_header_error:
  "json_h (jwt_Header jwt) = (hb, Some e) \<Longrightarrow>
   SignedString json_h json_p sg jwt s =
     (([], Some (Errorf ''failed to marshal JWT header to JSON'' e)), s)"
  by (simp add: SignedString_def)

lemma SignedString_payload_error:
  "json_h (jwt_Header jwt) = (hb, None) \<Longrightarrow> json_p (jwt_Payload jwt) = (pb, Some e) \<Longrightarrow>
   SignedString json_h json_p sg jwt s =
     (([], Some (Errorf ''failed to marshal JWT payload to JSON'' e)), s)"
  by (simp add: SignedString_def)

lemma SignedString_sign_error:
  "json_h (jwt_Header jwt) = (hb, None) \<Longrightarrow> json_p (jwt_Payload jwt) = (pb, None) \<Longrightarrow>
   sg s (EncodeToString hb @ ''.'' @ EncodeToString pb) = ((sig, Some e), s') \<Longrightarrow>
   SignedString json_h json_p sg jwt s = (([], Some (Errorf ''failed to sign JWT data'' e)), s')"
  by (simp add: SignedString_def)

lemma SignedString_ok:
  "json_h (jwt_Header jwt) = (hb, None) \<Longrightarrow> json_p (jwt_Payload jwt) = (pb, None) \<Longrightarrow>
   sg s (EncodeToString hb @ ''.'' @ EncodeToString pb) = ((sig, None), s') \<Longrightarrow>
   SignedString json_h json_p sg jwt s =
     ((EncodeToString hb @ ''.'' @ EncodeToString pb @ ''.'' @ EncodeToString sig, None), s')"
  by (simp add: SignedString_def)

text \<open>
  Claim C3. When header and payload serialize to \<open>hb\<close> and \<open>pb\<close> and the signer,
  given exactly the two encoded segments joined by a dot, returns \<open>sig\<close>,
  \<^verbatim>\<open>SignedString\<close> returns the three encoded segments joined by dots. Each segment is
  unpadded base64url: only characters of the URL alphabet (so neither \<open>=\<close> nor a dot),
  \<open>ceil(4n/3)\<close> of them for \<open>n\<close> bytes, and decoding gives the bytes back. When
  serializing the header or the payload fails, or the signer fails, the result is the
  empty string and an error that wraps the underlying one (\<^verbatim>\<open>errors.Is\<close> finds it); the
  signer is not called when serialization fails.
\<close>

theorem SignedString_compact_token:
  "(json_h (jwt_Header jwt) = (hb, None) \<and> json_p (jwt_Payload jwt) = (pb, None) \<and>
    sg s (EncodeToString hb @ ''.'' @ EncodeToString pb) = ((sig, None), s') \<longrightarrow>
      SignedString json_h json_p sg jwt s =
        ((EncodeToString hb @ ''.'' @ EncodeToString pb @ ''.'' @ EncodeToString sig, None), s')) \<and>
   (json_h (jwt_Header jwt) = (hb, Some e) \<longrightarrow>
      SignedString json_h json_p sg jwt s =
        (([], Some (Errorf ''failed to marshal JWT header to JSON'' e)), s) \<and>
      Is (Errorf ''failed to marshal JWT header to JSON'' e) e) \<and>
   (json_h (jwt_Header jwt) = (hb, None) \<and> json_p (jwt_Payload jwt) = (pb, Some e) \<longrightarrow>
      SignedString json_h json_p sg jwt s =
        (([], Some (Errorf ''failed to marshal JWT payload to JSON'' e)), s) \<and>
      Is (Errorf ''failed to marshal JWT payload to JSON'' e) e) \<and>
   (json_h (jwt_Header jwt) = (hb, None) \<and> json_p (jwt_Payload jwt) = (pb, None) \<and>
    sg s (EncodeToString hb @ ''.'' @ EncodeToString pb) = ((sig, Some e), s') \<longrightarrow>
      SignedString json_h json_p sg jwt s = (([], Some (Errorf ''failed to sign JWT data'' e)), s') \<and>
      Is (Errorf ''failed to sign JWT data'' e) e) \<and>
   set (EncodeToString x) \<subseteq> set encodeURL \<and>
   CHR ''='' \<notin> set (EncodeToString x) \<and> CHR ''.'' \<notin> set (EncodeToString x) \<and>
   length (EncodeToString x) = (4 * length x + 2) div 3 \<and>
   DecodeString (EncodeToString x) = x"
  using SignedString_ok [of json_h jwt hb json_p pb sg s sig s']
    SignedString_header_error [of json_h jwt hb e json_p sg s]
    SignedString_payload_error [of json_h jwt hb json_p pb e sg s]
    SignedString_sign_error [of json_h jwt hb json_p pb sg s sig e s']
    EncodeToString_alphabet [of x] EncodeToString_no_dot [of x] length_EncodeToString [of x]
    DecodeString_EncodeToString [of x]
  by (simp add: Is_refl)

text \<open>
  Header \<open>a\<close>, payload \<open>bc\<close> and signature \<open>sig\<close> encode to \<open>YQ\<close>, \<open>YmM\<close>
  and \<open>c2ln\<close>; the signer's state records what it was asked to sign.
\<close>

lemma enc_a: "EncodeToString ''a'' = ''YQ''"
  by (simp add: EncodeToString_def encodeURL_def)
lemma enc_bc: "EncodeToString ''bc'' = ''YmM''"
  by (simp add: EncodeToString_def encodeURL_def)
lemma enc_sig: "EncodeToString ''sig'' = ''c2ln''"
  by (simp add: EncodeToString_def encodeURL_def)

theorem SignedString_compact_token_witness:
  "SignedString (\<lambda>h. (h, None)) (\<lambda>p. (p, None)) (\<lambda>s d. ((''sig'', None), s @ [d]))
     \<lparr>jwt_Header = ''a'', jwt_Payload = ''bc''\<rparr> [] = ((''YQ.YmM.c2ln'', None), [''YQ.YmM'']) \<and>
   SignedString (\<lambda>h. (h, None)) (\<lambda>p. (p, None)) (\<lambda>s d. (([], Some (New ''sign failed'')), s @ [d]))
     \<lparr>jwt_Header = ''a'', jwt_Payload = ''bc''\<rparr> [] =
       (([], Some (Errorf ''failed to sign JWT data'' (New ''sign failed''))), [''YQ.YmM'']) \<and>
   SignedString (\<lambda>h. ([], Some (New ''unsupported type''))) (\<lambda>p. (p, None)) (\<lambda>s d. ((''sig'', None), s @ [d]))
     \<lparr>jwt_Header = ''a'', jwt_Payload = ''bc''\<rparr> [] =
       (([], Some (Errorf ''failed to marshal JWT header to JSON'' (New ''unsupported type''))), []) \<and>
   SignedString (\<lambda>h. (h, None)) (\<lambda>p. ([], Some (New ''unsupported type''))) (\<lambda>s d. ((''sig'', None), s @ [d]))
     \<lparr>jwt_Header = ''a'', jwt_Payload = ''bc''\<rparr> [] =
       (([], Some (Errorf ''failed to marshal JWT payload to JSON'' (New ''unsupported type''))), [])"
  using
    SignedString_compact_token [of "\<lambda>h. (h, None)" "\<lparr>jwt_Header = ''a'', jwt_Payload = ''bc''\<rparr>" "''a''"
       "\<lambda>p. (p, None)" "''bc''" "\<lambda>s d. ((''sig'', None), s @ [d])" "[]" "''sig''" "[''YQ.YmM'']"]
    SignedString_compact_token [of "\<lambda>h. (h, None)" "\<lparr>jwt_Header = ''a'', jwt_Payload = ''bc''\<rparr>" "''a''"
       "\<lambda>p. (p, None)" "''bc''" "\<lambda>s d. (([], Some (New ''sign failed'')), s @ [d])" "[]" "[]" "[''YQ.YmM'']"
       "New ''sign failed''"]
    SignedString_compact_token [of "\<lambda>h. ([], Some (New ''unsupported type''))"
       "\<lparr>jwt_Header = ''a'', jwt_Payload = ''bc''\<rparr>" "[]"
       "\<lambda>p. (p, None)" "''bc''" "\<lambda>s d. ((''sig'', None), s @ [d])" "[]" "''sig''" "[]"
       "New ''unsupported type''"]
    SignedString_compact_token [of "\<lambda>h. (h, None)" "\<lparr>jwt_Header = ''a'', jwt_Payload = ''bc''\<rparr>" "''a''"
       "\<lambda>p. ([], Some (New ''unsupported type''))" "[]" "\<lambda>s d. ((''sig'', None), s @ [d])" "[]" "''sig''" "[]"
       "New ''unsupported type''"]
  by (simp add: enc_a enc_bc enc_sig)

section \<open>The ECDSA signer\<close>

lemma length_big_endian: "length (big_endian n x) = n"
  by (induction n arbitrary: x) simp_all

lemma SetBytes_snoc: "SetBytes (bs @ [c]) = 256 * SetBytes bs + of_char c"
  by (simp add: SetBytes_def)

lemma SetBytes_big_endian: "SetBytes (big_endian n x) = x mod 256 ^ n"
proof (induction n arbitrary: x)
  case 0
  then show ?case by (simp add: SetBytes_def)
next
  case (Suc n)
  have "SetBytes (big_endian (Suc n) x) = 256 * ((x div 256) mod 256 ^ n) + x mod 256"
    using Suc [of "x div 256"] by (simp add: SetBytes_snoc)
  also have "\<dots> = x mod 256 ^ Suc n"
    by (simp add: mod_mult2_eq)
  finally show ?case .
qed

lemma FillBytes_fits:
  "nat \<bar>x\<bar> < 256 ^ n \<Longrightarrow> FillBytes x n = Some (big_endian n (nat \<bar>x\<bar>))"
  by (simp add: FillBytes_def)

lemma Sign_missing_key:
  "PrivateKey se = None \<Longrightarrow>
   Sign Av hs es (se, rnd) data = Return ((None, Some (New ''missing private key'')), se, rnd)"
  by (simp add: Sign_def)

lemma Sign_unsupported_curve:
  "PrivateKey se = Some key \<Longrightarrow> Curve_BitSize key \<noteq> 256 \<Longrightarrow>
   Sign Av hs es (se, rnd) data =
     Return ((None, Some (New (''unsupported curve: expected P-256, got ''
                               @ Itoa (Curve_BitSize key) @ '' bits''))),
             (if Av (Hash se) then se else se\<lparr>Hash := SHA256\<rparr>), rnd)"
  by (simp add: Sign_def Let_def)

lemma Sign_ecdsa_error:
  "PrivateKey se = Some key \<Longrightarrow> Curve_BitSize key = 256 \<Longrightarrow>
   es rnd key (hs (if Av (Hash se) then Hash se else SHA256) data) = (((r, s), Some e), rnd') \<Longrightarrow>
   Sign Av hs es (se, rnd) data =
     Return ((None, Some (Errorf ''ecdsa sign failed'' e)),
             (if Av (Hash se) then se else se\<lparr>Hash := SHA256\<rparr>), rnd')"
  by (cases "Av (Hash se)") (simp_all add: Sign_def Let_def)

lemma Sign_P256:
  assumes "PrivateKey se = Some key" "Curve_BitSize key = 256"
    and "es rnd key (hs (if Av (Hash se) then Hash se else SHA256) data) = (((r, s), None), rnd')"
    and "nat \<bar>r\<bar> < 2 ^ 256" "nat \<bar>s\<bar> < 2 ^ 256"
  shows "Sign Av hs es (se, rnd) data =
     Return ((Some (big_endian 32 (nat \<bar>r\<bar>) @ big_endian 32 (nat \<bar>s\<bar>)), None),
             (if Av (Hash se) then se else se\<lparr>Hash := SHA256\<rparr>), rnd')"
proof -
  have p: "(256 :: nat) ^ 32 = 2 ^ 256" by simp
  have "FillBytes r 32 = Some (big_endian 32 (nat \<bar>r\<bar>))" "FillBytes s 32 = Some (big_endian 32 (nat \<bar>s\<bar>))"
    using assms(4,5) by (simp_all add: FillBytes_def)
  then show ?thesis using assms(1-3) by (cases "Av (Hash se)") (simp_all add: Sign_def Let_def)
qed

lemma FillBytes_length: "FillBytes x n = Some bs \<Longrightarrow> length bs = n \<and> bs = big_endian n (nat \<bar>x\<bar>)"
  by (auto simp: FillBytes_def length_big_endian split: if_splits)

lemma Sign_output:
  assumes "Sign Av hs es (se, rnd) data = Return ((Some out, err), st')"
  shows "length out = 64 \<and> err = None \<and>
         (\<exists>key r s. PrivateKey se = Some key \<and> Curve_BitSize key = 256 \<and>
                    out = big_endian 32 (nat \<bar>r\<bar>) @ big_endian 32 (nat \<bar>s\<bar>))"
proof -
  obtain key where k: "PrivateKey se = Some key"
    using assms by (cases "PrivateKey se") (auto simp: Sign_def)
  have b: "Curve_BitSize key = 256"
    using assms k by (auto simp: Sign_def Let_def split: if_splits)
  let ?se = "if \<not> Av (Hash se) then se\<lparr>Hash := SHA256\<rparr> else se"
  obtain r s e rnd' where es: "es rnd key (hs (Hash ?se) data) = (((r, s), e), rnd')"
    by (metis surj_pair)
  have n: "e = None"
    using assms k b es by (cases e) (auto simp: Sign_def Let_def split: if_splits)
  obtain rb sb where f: "FillBytes r 32 = Some rb" "FillBytes s 32 = Some sb"
    using assms k b es n
    by (cases "FillBytes r 32"; cases "FillBytes s 32") (auto simp: Sign_def Let_def split: if_splits)
  have "out = rb @ sb" "err = None"
    using assms k b es n f by (auto simp: Sign_def Let_def split: if_splits)
  then show ?thesis using FillBytes_length [OF f(1)] FillBytes_length [OF f(2)] k b by auto
qed

text \<open>
  Claim C4. Without a private key \<^verbatim>\<open>Sign\<close> returns a nil slice and the missing-key
  error. With a key whose curve is not 256 bits wide it returns a nil slice and the
  unsupported-curve error, without signing. With a 256-bit curve, when \<^verbatim>\<open>ecdsa.Sign\<close>
  (called on the digest under the configured hash, or under SHA-256 when that hash is
  not available) returns components \<open>r\<close> and \<open>s\<close> below \<open>2^256\<close>, as it does on
  such a curve, \<^verbatim>\<open>Sign\<close> returns the 64 bytes made of \<open>r\<close> and \<open>s\<close>, each as 32
  bytes big-endian. Whenever \<^verbatim>\<open>Sign\<close> returns a slice that is not nil, the slice has 64
  bytes and the error is nil.
\<close>

theorem Sign_ECDSA_P256:
  "(PrivateKey se = None \<longrightarrow>
      Sign Av hs es (se, rnd) data = Return ((None, Some (New ''missing private key'')), se, rnd)) \<and>
   (PrivateKey se = Some key \<and> Curve_BitSize key \<noteq> 256 \<longrightarrow>
      Sign Av hs es (se, rnd) data =
        Return ((None, Some (New (''unsupported curve: expected P-256, got ''
                                  @ Itoa (Curve_BitSize key) @ '' bits''))),
                (if Av (Hash se) then se else se\<lparr>Hash := SHA256\<rparr>), rnd)) \<and>
   (PrivateKey se = Some key \<and> Curve_BitSize key = 256 \<and>
    es rnd key (hs (if Av (Hash se) then Hash se else SHA256) data) = (((r, s), None), rnd') \<and>
    nat \<bar>r\<bar> < 2 ^ 256 \<and> nat \<bar>s\<bar> < 2 ^ 256 \<longrightarrow>
      Sign Av hs es (se, rnd) data =
        Return ((Some (big_endian 32 (nat \<bar>r\<bar>) @ big_endian 32 (nat \<bar>s\<bar>)), None),
                (if Av (Hash se) then se else se\<lparr>Hash := SHA256\<rparr>), rnd') \<and>
      length (big_endian 32 (nat \<bar>r\<bar>) @ big_endian 32 (nat \<bar>s\<bar>)) = 64 \<and>
      SetBytes (big_endian 32 (nat \<bar>r\<bar>)) = nat \<bar>r\<bar> \<and>
      SetBytes (big_endian 32 (nat \<bar>s\<bar>)) = nat \<bar>s\<bar>) \<and>
   (Sign Av hs es (se, rnd) data = Return ((Some out, err), st') \<longrightarrow>
      length out = 64 \<and> err = None)"
proof -
  have p: "(256 :: nat) ^ 32 = 2 ^ 256" by simp
  have v: "SetBytes (big_endian 32 n) = n" if "n < 2 ^ 256" for n
    using that SetBytes_big_endian [of 32 n] p by simp
  show ?thesis
    using Sign_missing_key [of se Av hs es rnd data]
      Sign_unsupported_curve [of se key Av hs es rnd data]
      Sign_P256 [of se key es rnd hs Av data r s rnd']
      Sign_output [of Av hs es se rnd data out err st']
      v [of "nat \<bar>r\<bar>"] v [of "nat \<bar>s\<bar>"]
    by (simp add: length_big_endian)
qed

theorem Sign_ECDSA_P256_witness:
  "Sign (\<lambda>h. h = 5) (\<lambda>h d. d) (\<lambda>rnd k d. (((1, 2), None), Suc rnd))
     (\<lparr>PrivateKey = None, Hash = 0\<rparr>, 0 :: nat) ''message'' =
     Return ((None, Some (New ''missing private key'')), \<lparr>PrivateKey = None, Hash = 0\<rparr>, 0) \<and>
   Sign (\<lambda>h. h = 5) (\<lambda>h d. d) (\<lambda>rnd k d. (((1, 2), None), Suc rnd))
     (\<lparr>PrivateKey = Some \<lparr>Curve_BitSize = 384, D = 1\<rparr>, Hash = 0\<rparr>, 0 :: nat) ''message'' =
     Return ((None, Some (New (''unsupported curve: expected P-256, got '' @ Itoa 384 @ '' bits''))),
             \<lparr>PrivateKey = Some \<lparr>Curve_BitSize = 384, D = 1\<rparr>, Hash = SHA256\<rparr>, 0) \<and>
   Sign (\<lambda>h. h = 5) (\<lambda>h d. d) (\<lambda>rnd k d. (((1, 2), None), Suc rnd))
     (\<lparr>PrivateKey = Some \<lparr>Curve_BitSize = 256, D = 1\<rparr>, Hash = 0\<rparr>, 0 :: nat) ''message'' =
     Return ((Some (big_endian 32 1 @ big_endian 32 2), None),
             \<lparr>PrivateKey = Some \<lparr>Curve_BitSize = 256, D = 1\<rparr>, Hash = SHA256\<rparr>, 1) \<and>
   length (big_endian 32 1 @ big_endian 32 2) = 64"
  using
    Sign_ECDSA_P256 [of "\<lparr>PrivateKey = None, Hash = 0\<rparr>" "\<lambda>h. h = 5" "\<lambda>h d. d"
       "\<lambda>rnd k d. (((1, 2), None), Suc rnd)" "0 :: nat" "''message''"]
    Sign_ECDSA_P256 [of "\<lparr>PrivateKey = Some \<lparr>Curve_BitSize = 384, D = 1\<rparr>, Hash = 0\<rparr>" "\<lambda>h. h = 5" "\<lambda>h d. d"
       "\<lambda>rnd k d. (((1, 2), None), Suc rnd)" "0 :: nat" "''message''" "\<lparr>Curve_BitSize = 384, D = 1\<rparr>"]
    Sign_ECDSA_P256 [of "\<lparr>PrivateKey = Some \<lparr>Curve_BitSize = 256, D = 1\<rparr>, Hash = 0\<rparr>" "\<lambda>h. h = 5" "\<lambda>h d. d"
       "\<lambda>rnd k d. (((1, 2), None), Suc rnd)" "0 :: nat" "''message''" "\<lparr>Curve_BitSize = 256, D = 1\<rparr>" 1 2 1]
  by (simp add: SHA256_def)

section \<open>The token cache\<close>

lemma SignedString_provider:
  "SignedString (json_Header quote) (json_Payload quote) sg
     \<lparr>jwt_Header = \<lparr>Alg = ''ES256'', Kid = k\<rparr>, jwt_Payload = \<lparr>Issuer = i, IssuedAt = t\<rparr>\<rparr> st =
   (case sg st (signing_input quote k i t) of
      ((sig, Some e), st') \<Rightarrow> (([], Some (Errorf ''failed to sign JWT data'' e)), st')
    | ((sig, None), st') \<Rightarrow> ((signing_input quote k i t @ ''.'' @ EncodeToString sig, None), st'))"
  by (simp add: SignedString_def signing_input_def json_Header_def json_Payload_def
      split: prod.splits option.splits)

lemma GetToken_unfold:
  "GetToken quote sg (p, env) now =
    (if cache_valid p now then (Return (currentToken p, None), p, env)
     else case sg (signer p, env) (signing_input quote (keyID p) (teamID p) (Unix now)) of
            ((sig, Some e), (s', env')) \<Rightarrow>
              (Return ([], Some (Errorf ''failed to sign JWT token'' (Errorf ''failed to sign JWT data'' e))),
               p\<lparr>signer := s'\<rparr>, env')
          | ((sig, None), (s', env')) \<Rightarrow>
              (case logger p of
                 None \<Rightarrow>
                   (Panic ''invalid memory address or nil pointer dereference'',
                    p\<lparr>signer := s',
                      currentToken := signing_input quote (keyID p) (teamID p) (Unix now) @ ''.'' @ EncodeToString sig,
                      expiresAt := Add now (tokenTTL p)\<rparr>,
                    env')
               | Some records \<Rightarrow>
                   (Return (signing_input quote (keyID p) (teamID p) (Unix now) @ ''.'' @ EncodeToString sig, None),
                    p\<lparr>signer := s',
                      currentToken := signing_input quote (keyID p) (teamID p) (Unix now) @ ''.'' @ EncodeToString sig,
                      expiresAt := Add now (tokenTTL p),
                      logger := Some (records @ [(''Token generated successfully'', Add now (tokenTTL p))])\<rparr>,
                    env')))"
  by (simp add: GetToken_def cache_valid_def SignedString_provider Let_def
      split: prod.splits option.splits)



lemma GetToken_mint_nil_logger:
  assumes "\<not> cache_valid p now" "logger p = None"
    and "sg (signer p, env) (signing_input quote (keyID p) (teamID p) (Unix now)) = ((sig, None), (s', env'))"
  shows "GetToken quote sg (p, env) now =
     (Panic ''invalid memory address or nil pointer dereference'',
      p\<lparr>signer := s',
        currentToken := signing_input quote (keyID p) (teamID p) (Unix now) @ ''.'' @ EncodeToString sig,
        expiresAt := Add now (tokenTTL p)\<rparr>,
      env')"
  using assms by (simp add: GetToken_unfold)

lemma GetToken_mint_error:
  assumes "\<not> cache_valid p now"
    and "sg (signer p, env) (signing_input quote (keyID p) (teamID p) (Unix now)) = ((sig, Some e), (s', env'))"
  shows "GetToken quote sg (p, env) now =
     (Return ([], Some (Errorf ''failed to sign JWT token'' (Errorf ''failed to sign JWT data'' e))),
      p\<lparr>signer := s'\<rparr>, env')"
  using assms by (simp add: GetToken_unfold)








lemma GetToken_error_unchanged:
  assumes "GetToken quote sg (p, env) now = (Return (tok, Some err), p', env')"
  shows "tok = [] \<and> currentToken p' = currentToken p \<and> expiresAt p' = expiresAt p \<and>
         p' = p\<lparr>signer := signer p'\<rparr> \<and> \<not> cache_valid p now \<and>
         (\<exists>sig e. sg (signer p, env) (signing_input quote (keyID p) (teamID p) (Unix now)) =
                    ((sig, Some e), (signer p', env')) \<and>
                  err = Errorf ''failed to sign JWT token'' (Errorf ''failed to sign JWT data'' e))"
proof (cases "cache_valid p now")
  case True
  then show ?thesis using assms by (simp add: GetToken_unfold)
next
  case False
  obtain sig r s' e' where
    s: "sg (signer p, env) (signing_input quote (keyID p) (teamID p) (Unix now)) = ((sig, r), (s', e'))"
    by (metis surj_pair)
  show ?thesis
  proof (cases r)
    case None
    then show ?thesis using assms False s by (cases "logger p") (simp_all add: GetToken_unfold)
  next
    case (Some e)
    then show ?thesis using assms False s by (auto simp: GetToken_unfold)
  qed
qed









text \<open>
  Claim C2. When the signer fails inside \<^verbatim>\<open>GetToken\<close>, the call returns the empty string
  and the signer's error wrapped twice (\<^verbatim>\<open>errors.Is\<close> finds it), and the provider is as
  before but for what the signer did to itself: \<open>currentToken\<close> and \<open>expiresAt\<close> are
  unchanged, so the cache is valid exactly when it was, and the next call asks the signer
  again. Conversely every error \<^verbatim>\<open>GetToken\<close> returns is such a signing failure and
  comes with the empty string and the cache unchanged.
\<close>

theorem GetToken_signing_failure:
  "(\<not> cache_valid p now \<and>
    sg (signer p, env) (signing_input quote (keyID p) (teamID p) (Unix now)) = ((sig, Some e), (s', env')) \<longrightarrow>
      GetToken quote sg (p, env) now =
        (Return ([], Some (Errorf ''failed to sign JWT token'' (Errorf ''failed to sign JWT data'' e))),
         p\<lparr>signer := s'\<rparr>, env') \<and>
      Is (Errorf ''failed to sign JWT token'' (Errorf ''failed to sign JWT data'' e)) e \<and>
      (\<forall>t. cache_valid (p\<lparr>signer := s'\<rparr>) t = cache_valid p t) \<and>
      GetToken quote sg (p\<lparr>signer := s'\<rparr>, env') now =
        (case sg (s', env') (signing_input quote (keyID p) (teamID p) (Unix now)) of
           ((sig2, Some e2), (s2, env2)) \<Rightarrow>
             (Return ([], Some (Errorf ''failed to sign JWT token'' (Errorf ''failed to sign JWT data'' e2))),
              p\<lparr>signer := s2\<rparr>, env2)
         | ((sig2, None), (s2, env2)) \<Rightarrow>
             (case logger p of
                None \<Rightarrow>
                  (Panic ''invalid memory address or nil pointer dereference'',
                   p\<lparr>signer := s2,
                     currentToken := signing_input quote (keyID p) (teamID p) (Unix now) @ ''.'' @ EncodeToString sig2,
                     expiresAt := Add now (tokenTTL p)\<rparr>,
                   env2)
              | Some records \<Rightarrow>
                  (Return (signing_input quote (keyID p) (teamID p) (Unix now) @ ''.'' @ EncodeToString sig2, None),
                   p\<lparr>signer := s2,
                     currentToken := signing_input quote (keyID p) (teamID p) (Unix now) @ ''.'' @ EncodeToString sig2,
                     expiresAt := Add now (tokenTTL p),
                     logger := Some (records @ [(''Token generated successfully'', Add now (tokenTTL p))])\<rparr>,
                   env2)))) \<and>
   (GetToken quote sg (p, env) now = (Return (tok, Some err), p', env'') \<longrightarrow>
      tok = [] \<and> currentToken p' = currentToken p \<and> expiresAt p' = expiresAt p \<and>
      p' = p\<lparr>signer := signer p'\<rparr> \<and>
      (\<exists>sig e. sg (signer p, env) (signing_input quote (keyID p) (teamID p) (Unix now)) =
                 ((sig, Some e), (signer p', env'')) \<and>
               err = Errorf ''failed to sign JWT token'' (Errorf ''failed to sign JWT data'' e)))"
proof -
  have v: "cache_valid (p\<lparr>signer := s'\<rparr>) t = cache_valid p t" for t
    by (simp add: cache_valid_def)
  have a: "GetToken quote sg (p\<lparr>signer := s'\<rparr>, env') now =
        (case sg (s', env') (signing_input quote (keyID p) (teamID p) (Unix now)) of
           ((sig2, Some e2), (s2, env2)) \<Rightarrow>
             (Return ([], Some (Errorf ''failed to sign JWT token'' (Errorf ''failed to sign JWT data'' e2))),
              p\<lparr>signer := s2\<rparr>, env2)
         | ((sig2, None), (s2, env2)) \<Rightarrow>
             (case logger p of
                None \<Rightarrow>
                  (Panic ''invalid memory address or nil pointer dereference'',
                   p\<lparr>signer := s2,
                     currentToken := signing_input quote (keyID p) (teamID p) (Unix now) @ ''.'' @ EncodeToString sig2,
                     expiresAt := Add now (tokenTTL p)\<rparr>,
                   env2)
              | Some records \<Rightarrow>
                  (Return (signing_input quote (keyID p) (teamID p) (Unix now) @ ''.'' @ EncodeToString sig2, None),
                   p\<lparr>signer := s2,
                     currentToken := signing_input quote (keyID p) (teamID p) (Unix now) @ ''.'' @ EncodeToString sig2,
                     expiresAt := Add now (tokenTTL p),
                     logger := Some (records @ [(''Token generated successfully'', Add now (tokenTTL p))])\<rparr>,
                   env2)))"
    if "\<not> cache_valid p now"
  proof -
    have "\<not> cache_valid (p\<lparr>signer := s'\<rparr>) now" using that v by simp
    then show ?thesis
      by (simp add: GetToken_unfold split: prod.splits option.splits)
  qed
  have b: "GetToken quote sg (p, env) now =
        (Return ([], Some (Errorf ''failed to sign JWT token'' (Errorf ''failed to sign JWT data'' e))),
         p\<lparr>signer := s'\<rparr>, env')"
    if "\<not> cache_valid p now"
      "sg (signer p, env) (signing_input quote (keyID p) (teamID p) (Unix now)) = ((sig, Some e), (s', env'))"
    using that by (rule GetToken_mint_error)
  have i: "Is (Errorf ''failed to sign JWT token'' (Errorf ''failed to sign JWT data'' e)) e"
    by (simp add: Is_refl)
  have c: "tok = [] \<and> currentToken p' = currentToken p \<and> expiresAt p' = expiresAt p \<and>
      p' = p\<lparr>signer := signer p'\<rparr> \<and>
      (\<exists>sig e. sg (signer p, env) (signing_input quote (keyID p) (teamID p) (Unix now)) =
                 ((sig, Some e), (signer p', env'')) \<and>
               err = Errorf ''failed to sign JWT token'' (Errorf ''failed to sign JWT data'' e))"
    if "GetToken quote sg (p, env) now = (Return (tok, Some err), p', env'')"
    using GetToken_error_unchanged [OF that] by blast
  show ?thesis using a b c i v by blast
qed

text \<open>A signer that always fails and counts its calls: two calls, two attempts.\<close>

theorem GetToken_signing_failure_witness:
  "GetToken id (failing_signer (New ''no entropy''))
     (NewProvider ''ABC123'' ''TEAM1'' None [], 0) (time_Unix 0) =
     (Return ([], Some (Errorf ''failed to sign JWT token''
                         (Errorf ''failed to sign JWT data'' (New ''no entropy'')))),
      NewProvider ''ABC123'' ''TEAM1'' None [], 1) \<and>
   GetToken id (failing_signer (New ''no entropy''))
     (NewProvider ''ABC123'' ''TEAM1'' None [], 1) (time_Unix 0) =
     (Return ([], Some (Errorf ''failed to sign JWT token''
                         (Errorf ''failed to sign JWT data'' (New ''no entropy'')))),
      NewProvider ''ABC123'' ''TEAM1'' None [], 2)"
proof -
  let ?sg = "failing_signer (New ''no entropy'') :: (SignerECDSA \<times> nat) Signer"
  let ?P0 = "NewProvider ''ABC123'' ''TEAM1'' None []"
  let ?err = "Errorf ''failed to sign JWT token'' (Errorf ''failed to sign JWT data'' (New ''no entropy''))"
  have n: "\<not> cache_valid ?P0 (time_Unix 0)"
    by (simp add: cache_valid_def NewProvider_def)
  have s: "?P0\<lparr>signer := signer ?P0\<rparr> = ?P0" by simp
  have g0: "?sg (signer ?P0, 0) (signing_input id (keyID ?P0) (teamID ?P0) (Unix (time_Unix 0))) =
        (([], Some (New ''no entropy'')), (signer ?P0, 1))"
    by (simp add: failing_signer_def)
  have g1: "?sg (signer ?P0, 1) (signing_input id (keyID ?P0) (teamID ?P0) (Unix (time_Unix 0))) =
        (([], Some (New ''no entropy'')), (signer ?P0, 2))"
    by (simp add: failing_signer_def)
  have t0: "GetToken id ?sg (?P0, 0) (time_Unix 0) = (Return ([], Some ?err), ?P0\<lparr>signer := signer ?P0\<rparr>, 1)"
    using GetToken_signing_failure
      [of ?P0 "time_Unix 0" ?sg "0 :: nat" id "[]" "New ''no entropy''" "signer ?P0" "1 :: nat"] n g0
    by blast
  have t1: "GetToken id ?sg (?P0, 1) (time_Unix 0) = (Return ([], Some ?err), ?P0\<lparr>signer := signer ?P0\<rparr>, 2)"
    using GetToken_signing_failure
      [of ?P0 "time_Unix 0" ?sg "1 :: nat" id "[]" "New ''no entropy''" "signer ?P0" "2 :: nat"] n g1
    by blast
  show ?thesis unfolding t0 t1 s by simp
qed

section \<open>The options of the client with a process-wide transport\<close>

lemma call_shared_public:
  "call_shared WithDevelopment_shared (c, w) = (c\<lparr>Development := True\<rparr>, w)"
  "call_shared (WithLogger_shared lg) (c, w) = (if lg \<noteq> None then c\<lparr>Logger := lg\<rparr> else c, w)"
  "call_shared (WithTransport_shared tr) (c, w) =
     (if tr \<noteq> None then c\<lparr>HTTPClient := (HTTPClient c)\<lparr>Transport := tr\<rparr>\<rparr> else c, w)"
  "call_shared (WithClientTrace_shared fac) (c, w) =
     (if fst (fac (Logger c) w) \<noteq> None then c\<lparr>Trace := fst (fac (Logger c) w)\<rparr> else c,
      snd (fac (Logger c) w))"
  by (simp_all add: call_shared_def WithDevelopment_shared_def WithLogger_shared_def
      WithTransport_shared_def WithClientTrace_shared_def split: prod.splits)

lemma probe_public:
  "WithDevelopment_shared None w = ((None, False), w)"
  "WithLogger_shared lg None w = ((None, False), w)"
  "WithTransport_shared tr None w = ((None, False), w)"
  "WithClientTrace_shared fac None w = ((None, True), w)"
  by (simp_all add: WithDevelopment_shared_def WithLogger_shared_def
      WithTransport_shared_def WithClientTrace_shared_def)

lemma NewClient_shared_ready:
  assumes "sharedTransport g = Some tr" "config g = Some cfg"
  shows "NewClient_shared conf dt host tp opts (g, w) =
    (let c = \<lparr>Host = host, Development = False,
              HTTPClient = \<lparr>Transport = Some tr, Timeout = cc_HTTPTimeout cfg\<rparr>,
              TokenProvider = tp, Logger = Some (slog_New (NewTextHandler Discard)), Trace = None\<rparr>;
         st = options_loop opts ((c, w), None);
         cw = (case snd st of None \<Rightarrow> fst st | Some opt \<Rightarrow> call_shared opt (fst st))
     in Return ((Some (fst cw), None), g, snd cw))"
  using assms by (auto simp: NewClient_shared_def Let_def split: prod.splits option.splits)

text \<open>
  In this version a logger option and a trace option give, in either order, a client with
  that logger whose trace is what the factory returns for it, provided the factory
  returns a trace for that logger and has no effect of its own.
\<close>

lemma NewClient_shared_logger_and_trace:
  assumes "sharedTransport g = Some tr" "config g = Some cfg" "mk (Some L) \<noteq> None"
  shows "NewClient_shared conf dt host tp
           [WithClientTrace_shared (\<lambda>l w. (mk l, w)), WithLogger_shared (Some L)] (g, w) =
         Return ((Some \<lparr>Host = host, Development = False,
                        HTTPClient = \<lparr>Transport = Some tr, Timeout = cc_HTTPTimeout cfg\<rparr>,
                        TokenProvider = tp, Logger = Some L, Trace = mk (Some L)\<rparr>, None), g, w)"
    and "NewClient_shared conf dt host tp
           [WithLogger_shared (Some L), WithClientTrace_shared (\<lambda>l w. (mk l, w))] (g, w) =
         Return ((Some \<lparr>Host = host, Development = False,
                        HTTPClient = \<lparr>Transport = Some tr, Timeout = cc_HTTPTimeout cfg\<rparr>,
                        TokenProvider = tp, Logger = Some L, Trace = mk (Some L)\<rparr>, None), g, w)"
  using assms
  by (simp_all add: NewClient_shared_ready [OF assms(1,2)] probe_public call_shared_public Let_def)

text \<open>
  Only the last option that asks for it is applied again. Of two trace options followed
  by a logger option, the first builds its trace from the discard logger and is not
  applied again; when the second returns no trace, the client keeps a trace that was
  built from the discard logger, not from the logger it ends up with.
\<close>

lemma NewClient_shared_only_last_reapplied:
  "NewClient_shared conf dt [] ()
     [WithClientTrace_shared (\<lambda>l w. (l, w)), WithClientTrace_shared (\<lambda>l w. (None, w)),
      WithLogger_shared (Some (slog_New (Handler 7)))]
     (\<lparr>config = Some defaultConfig_shared, sharedTransport = Some tr, configOnce = True\<rparr>, ()) =
   Return ((Some \<lparr>Host = [], Development = False,
                  HTTPClient = \<lparr>Transport = Some tr, Timeout = 60 * Second\<rparr>,
                  TokenProvider = (), Logger = Some (slog_New (Handler 7)),
                  Trace = Some (slog_New (NewTextHandler Discard))\<rparr>, None),
           \<lparr>config = Some defaultConfig_shared, sharedTransport = Some tr, configOnce = True\<rparr>, ())"
  by (simp add: NewClient_shared_def probe_public call_shared_public Let_def defaultConfig_shared_def)

text \<open>
  A first \<^verbatim>\<open>NewClient\<close> in a fresh process sets the configuration to the default one,
  whose TLS configuration has \<^verbatim>\<open>MinVersion = VersionTLS13\<close>, and hands
  \<^verbatim>\<open>http2.ConfigureTransports\<close> a transport with that TLS configuration.
\<close>

lemma NewClient_shared_first:
  "NewClient_shared conf dt host tp [] (\<lparr>config = None, sharedTransport = None, configOnce = False\<rparr>, w) =
    (case conf (dt\<lparr>MaxIdleConnsPerHost := 100,
                    TLSClientConfig := Some (tls_Config_zero\<lparr>MinVersion := VersionTLS13\<rparr>)\<rparr>) of
       Inl err \<Rightarrow> Return ((None, Some err),
                          \<lparr>config = Some defaultConfig_shared, sharedTransport = None, configOnce = True\<rparr>, w)
     | Inr tr2 \<Rightarrow>
         Return ((Some \<lparr>Host = host, Development = False,
                        HTTPClient = \<lparr>Transport = Some (t1 tr2), Timeout = 60 * Second\<rparr>,
                        TokenProvider = tp, Logger = Some (slog_New (NewTextHandler Discard)),
                        Trace = None\<rparr>, None),
                 \<lparr>config = Some defaultConfig_shared, sharedTransport = Some (t1 tr2), configOnce = True\<rparr>,
                 w))"
  by (simp add: NewClient_shared_def SetConfig_def newTransport_def defaultConfig_shared_def Let_def
      split: sum.splits)

end
